theory Spec2Isabelle
  imports Complex_Main
begin

section \<open>JavaScript values\<close>

text \<open>
  The helpers of the metrics collector receive what the HTTP client decoded: text, or a
  JSON value. A value is therefore undefined, null, a boolean, a number, a string, an
  array or a plain object whose own properties are listed in order (the first binding of
  a key is the property).

  A string is its sequence of code units, each of them below 256 here.

  A number that is neither NaN nor infinite is represented by the rational it denotes;
  rounding to binary64, overflow to an infinity and underflow to zero included, is not
  part of the model (it never turns a number into NaN nor NaN into a number).
\<close>

datatype jsnum = NaN | PosInfinity | NegInfinity | Finite rat

datatype jsval =
    JUndefined
  | JNull
  | JBool bool
  | JNum jsnum
  | JStr string
  | JArr "jsval list"
  | JObj "(string \<times> jsval) list"

datatype error = TypeError | Error string | RequestFailed string

subsection \<open>Strings\<close>

text \<open>\<open>String.prototype.split\<close> with a one-character separator.\<close>

fun split :: "char \<Rightarrow> string \<Rightarrow> string list" where
  "split d [] = [[]]"
| "split d (c # cs) =
     (if c = d then [] # split d cs
      else (case split d cs of [] \<Rightarrow> [[c]] | l # ls \<Rightarrow> (c # l) # ls))"

text \<open>\<open>String.prototype.lastIndexOf\<close> with a one-character pattern: \<open>-1\<close> when absent.\<close>

fun lastIndexOf :: "string \<Rightarrow> char \<Rightarrow> int" where
  "lastIndexOf [] d = -1"
| "lastIndexOf (c # cs) d =
     (let r = lastIndexOf cs d
      in if r \<noteq> -1 then r + 1 else if c = d then 0 else -1)"

text \<open>
  \<open>String.prototype.slice(start, end)\<close> and \<open>slice(start)\<close>: a negative index counts
  from the end, and both indices are clamped to the string.
\<close>

definition rel_index :: "string \<Rightarrow> int \<Rightarrow> nat" where
  "rel_index s i =
     (if i < 0 then nat (max (int (length s) + i) 0) else nat (min i (int (length s))))"

definition slice :: "string \<Rightarrow> int \<Rightarrow> int \<Rightarrow> string" where
  "slice s start end' =
     (let from = rel_index s start; to = rel_index s end'
      in take (to - from) (drop from s))"

definition slice_from :: "string \<Rightarrow> int \<Rightarrow> string" where
  "slice_from s start = drop (rel_index s start) s"

text \<open>\<open>String.prototype.substring(0, n)\<close> for a literal \<open>n \<ge> 0\<close>.\<close>

definition substring0 :: "string \<Rightarrow> nat \<Rightarrow> string" where
  "substring0 s n = take n s"

subsection \<open>Conversion of a string to a number\<close>

text \<open>
  \<open>Number(s)\<close> on a string follows the grammar of string numeric literals: white space
  is trimmed, the empty string is 0, a decimal literal may carry a sign, a fraction and
  an exponent, \<open>Infinity\<close> may carry a sign, a binary, octal or hexadecimal integer
  carries none, and everything else is NaN.
\<close>

definition is_ws :: "char \<Rightarrow> bool" where
  "is_ws c \<longleftrightarrow> c \<in> set [CHR 0x09, CHR 0x0A, CHR 0x0B, CHR 0x0C, CHR 0x0D, CHR 0x20, CHR 0xA0]"

definition trim :: "string \<Rightarrow> string" where
  "trim s = rev (dropWhile is_ws (rev (dropWhile is_ws s)))"

definition digit_of :: "char \<Rightarrow> nat option" where
  "digit_of c =
     (let n = (of_char c :: nat)
      in if 48 \<le> n \<and> n \<le> 57 then Some (n - 48)
         else if 97 \<le> n \<and> n \<le> 102 then Some (n - 87)
         else if 65 \<le> n \<and> n \<le> 70 then Some (n - 55)
         else None)"

definition is_digit :: "nat \<Rightarrow> char \<Rightarrow> bool" where
  "is_digit base c = (case digit_of c of None \<Rightarrow> False | Some v \<Rightarrow> v < base)"

definition digits_value :: "nat \<Rightarrow> string \<Rightarrow> nat" where
  "digits_value base ds = foldl (\<lambda>a c. a * base + (case digit_of c of None \<Rightarrow> 0 | Some v \<Rightarrow> v)) 0 ds"

definition radix_literal :: "nat \<Rightarrow> string \<Rightarrow> jsnum" where
  "radix_literal base ds =
     (if ds \<noteq> [] \<and> list_all (is_digit base) ds
      then Finite (of_nat (digits_value base ds)) else NaN)"

definition exponent_part :: "string \<Rightarrow> int option" where
  "exponent_part t =
     (let sgn = (case t of c # _ \<Rightarrow> if c = CHR ''-'' then -1 else 1 | [] \<Rightarrow> 1);
          ds = (case t of c # u \<Rightarrow> if c = CHR ''-'' \<or> c = CHR ''+'' then u else t | [] \<Rightarrow> t)
      in if ds \<noteq> [] \<and> list_all (is_digit 10) ds
         then Some (sgn * int (digits_value 10 ds)) else None)"

definition unsigned_decimal :: "string \<Rightarrow> jsnum" where
  "unsigned_decimal s =
     (if s = ''Infinity'' then PosInfinity
      else
        let ip = takeWhile (is_digit 10) s;
            r1 = dropWhile (is_digit 10) s;
            fp = (case r1 of c # t \<Rightarrow> if c = CHR ''.'' then takeWhile (is_digit 10) t else []
                  | [] \<Rightarrow> []);
            r2 = (case r1 of c # t \<Rightarrow> if c = CHR ''.'' then dropWhile (is_digit 10) t else r1
                  | [] \<Rightarrow> []);
            m = (of_nat (digits_value 10 ip) :: rat)
                + of_nat (digits_value 10 fp) / 10 ^ length fp
        in if ip = [] \<and> fp = [] then NaN
           else (case r2 of
                   [] \<Rightarrow> Finite m
                 | c # t \<Rightarrow>
                     if c = CHR ''e'' \<or> c = CHR ''E''
                     then (case exponent_part t of
                             None \<Rightarrow> NaN
                           | Some e \<Rightarrow> Finite (m * power_int 10 e))
                     else NaN))"

definition negate :: "jsnum \<Rightarrow> jsnum" where
  "negate n =
     (case n of NaN \<Rightarrow> NaN | PosInfinity \<Rightarrow> NegInfinity | NegInfinity \<Rightarrow> PosInfinity
      | Finite q \<Rightarrow> Finite (- q))"

definition StringToNumber :: "string \<Rightarrow> jsnum" where
  "StringToNumber s =
     (case trim s of
        [] \<Rightarrow> Finite 0
      | c # t \<Rightarrow>
          if c = CHR ''+'' then unsigned_decimal t
          else if c = CHR ''-'' then negate (unsigned_decimal t)
          else if c = CHR ''0'' \<and> t \<noteq> [] \<and> hd t \<in> set ''xX'' then radix_literal 16 (tl t)
          else if c = CHR ''0'' \<and> t \<noteq> [] \<and> hd t \<in> set ''oO'' then radix_literal 8 (tl t)
          else if c = CHR ''0'' \<and> t \<noteq> [] \<and> hd t \<in> set ''bB'' then radix_literal 2 (tl t)
          else unsigned_decimal (c # t))"

definition is_NaN :: "jsnum \<Rightarrow> bool" where
  "is_NaN n \<longleftrightarrow> n = NaN"

subsection \<open>Conversions of a value\<close>

text \<open>\<open>ToBoolean\<close>: the falsy values are undefined, null, false, 0, NaN and the empty string.\<close>

fun ToBoolean :: "jsval \<Rightarrow> bool" where
  "ToBoolean JUndefined = False"
| "ToBoolean JNull = False"
| "ToBoolean (JBool b) = b"
| "ToBoolean (JNum n) = (n \<noteq> NaN \<and> n \<noteq> Finite 0)"
| "ToBoolean (JStr s) = (s \<noteq> [])"
| "ToBoolean (JArr xs) = True"
| "ToBoolean (JObj kvs) = True"

text \<open>
  \<open>ToString\<close>, as string concatenation and template literals apply it. The digits of a
  number are those the host prints (\<open>Number::toString\<close>), a parameter here. An array is
  joined with commas, undefined and null elements giving the empty string. A plain
  object inherits \<open>Object.prototype.toString\<close>, unless it has an own property of that
  name: no decoded property is callable, so the conversion then throws.
\<close>

fun ToString :: "(jsnum \<Rightarrow> string) \<Rightarrow> jsval \<Rightarrow> error + string"
  and join :: "(jsnum \<Rightarrow> string) \<Rightarrow> jsval list \<Rightarrow> error + string" where
  "ToString ns JUndefined = Inr ''undefined''"
| "ToString ns JNull = Inr ''null''"
| "ToString ns (JBool b) = Inr (if b then ''true'' else ''false'')"
| "ToString ns (JNum n) = Inr (ns n)"
| "ToString ns (JStr s) = Inr s"
| "ToString ns (JArr xs) = join ns xs"
| "ToString ns (JObj kvs) =
     (if map_of kvs ''toString'' \<noteq> None then Inl TypeError else Inr ''[object Object]'')"
| "join ns [] = Inr []"
| "join ns (x # xs) =
     (case (if x = JUndefined \<or> x = JNull then Inr [] else ToString ns x) of
        Inl e \<Rightarrow> Inl e
      | Inr s \<Rightarrow>
          if xs = [] then Inr s
          else (case join ns xs of Inl e \<Rightarrow> Inl e | Inr r \<Rightarrow> Inr (s @ '','' @ r)))"

text \<open>\<open>ToNumber\<close>: an array or an object is first converted to its string.\<close>

fun ToNumber :: "(jsnum \<Rightarrow> string) \<Rightarrow> jsval \<Rightarrow> error + jsnum" where
  "ToNumber ns JUndefined = Inr NaN"
| "ToNumber ns JNull = Inr (Finite 0)"
| "ToNumber ns (JBool b) = Inr (Finite (if b then 1 else 0))"
| "ToNumber ns (JNum n) = Inr n"
| "ToNumber ns (JStr s) = Inr (StringToNumber s)"
| "ToNumber ns v = (case ToString ns v of Inl e \<Rightarrow> Inl e | Inr s \<Rightarrow> Inr (StringToNumber s))"

text \<open>The global \<open>isNaN\<close>, which converts its argument to a number first.\<close>

definition isNaN :: "(jsnum \<Rightarrow> string) \<Rightarrow> jsval \<Rightarrow> error + bool" where
  "isNaN ns v = (case ToNumber ns v of Inl e \<Rightarrow> Inl e | Inr n \<Rightarrow> Inr (is_NaN n))"

subsection \<open>Property reads\<close>

text \<open>
  Reading a property that no prototype defines (\<open>data\<close>, \<open>result\<close>, \<open>metric\<close>, \<open>job\<close>,
  \<open>instance\<close>, \<open>__name__\<close>, \<open>value\<close>, \<open>name\<close>): a TypeError on undefined and null, the
  own property of an object, and undefined otherwise.
\<close>

fun Get :: "jsval \<Rightarrow> string \<Rightarrow> error + jsval" where
  "Get JUndefined k = Inl TypeError"
| "Get JNull k = Inl TypeError"
| "Get (JObj kvs) k = Inr (case map_of kvs k of None \<Rightarrow> JUndefined | Some v \<Rightarrow> v)"
| "Get v k = Inr JUndefined"

text \<open>
  \<open>v.constructor.name\<close>: the name of the built-in constructor, unless an object has an
  own property \<open>constructor\<close>, whose \<open>name\<close> is then read.
\<close>

fun constructor_name :: "jsval \<Rightarrow> error + jsval" where
  "constructor_name JUndefined = Inl TypeError"
| "constructor_name JNull = Inl TypeError"
| "constructor_name (JBool b) = Inr (JStr ''Boolean'')"
| "constructor_name (JNum n) = Inr (JStr ''Number'')"
| "constructor_name (JStr s) = Inr (JStr ''String'')"
| "constructor_name (JArr xs) = Inr (JStr ''Array'')"
| "constructor_name (JObj kvs) =
     (case map_of kvs ''constructor'' of
        None \<Rightarrow> Inr (JStr ''Object'')
      | Some c \<Rightarrow> Get c ''name'')"

text \<open>\<open>v[1]\<close> on a value that is neither undefined nor null.\<close>

fun index1 :: "jsval \<Rightarrow> jsval" where
  "index1 (JArr xs) = (if 1 < length xs then xs ! 1 else JUndefined)"
| "index1 (JObj kvs) = (case map_of kvs ''1'' of None \<Rightarrow> JUndefined | Some v \<Rightarrow> v)"
| "index1 (JStr s) = (if 1 < length s then JStr [s ! 1] else JUndefined)"
| "index1 v = JUndefined"

text \<open>The values a \<open>for ... of\<close> loop visits: arrays and strings are iterable.\<close>

fun iterate :: "jsval \<Rightarrow> error + jsval list" where
  "iterate (JArr xs) = Inr xs"
| "iterate (JStr s) = Inr (map (\<lambda>c. JStr [c]) s)"
| "iterate v = Inl TypeError"

section \<open>The host: clock and console\<close>

datatype log_entry =
    Invalid_metric string
  | Fetch_failed jsval jsval error

record world =
  clock :: "nat \<Rightarrow> int"
  ticks :: nat
  console :: "log_entry list"

text \<open>\<open>Date.now()\<close> reads the clock; the \<open>k\<close>-th read of a run returns \<open>clock k\<close>.\<close>

definition Date_now :: "world \<Rightarrow> int \<times> world" where
  "Date_now w = (clock w (ticks w), w\<lparr>ticks := Suc (ticks w)\<rparr>)"

definition console_error :: "log_entry \<Rightarrow> world \<Rightarrow> world" where
  "console_error l w = w\<lparr>console := console w @ [l]\<rparr>"

section \<open>The helpers\<close>

record metric_record =
  metric :: string
  val :: jsval
  time :: int
  category :: string

record config =
  mode :: jsval
  jmxuri :: jsval
  promService :: jsval
  promPort :: jsval

subsection \<open>getMetricsURI\<close>

definition getMetricsURI :: "(jsnum \<Rightarrow> string) \<Rightarrow> config \<Rightarrow> error + jsval" where
  "getMetricsURI ns cfg =
     (if mode cfg = JStr ''kafka'' then Inr (jmxuri cfg)
      else if mode cfg = JStr ''kubernetes'' then
        (case ToString ns (promService cfg) of
           Inl e \<Rightarrow> Inl e
         | Inr service \<Rightarrow>
             (case ToString ns (promPort cfg) of
                Inl e \<Rightarrow> Inl e
              | Inr port \<Rightarrow>
                  Inr (JStr (''http://'' @ service @ '':'' @ port @ ''/api/v1/query?query=''))))
      else Inl (Error ''Unrecognized mode''))"

subsection \<open>extractWord\<close>

text \<open>
  One round of the loop over the lines, on the state made of the array \<open>res\<close> and the
  console. A line is skipped when it is empty or a comment and, in mode \<open>kafka\<close>, when
  it starts with \<open>jmx\<close> or \<open>'jmx\<close>.
\<close>

definition extractWord_body ::
  "jsval \<Rightarrow> int \<Rightarrow> string \<Rightarrow> metric_record list \<times> log_entry list
     \<Rightarrow> metric_record list \<times> log_entry list" where
  "extractWord_body m t element st =
     (case st of (res, con) \<Rightarrow>
      if element = [] \<or> take 1 element = ''#'' then (res, con)
      else if m = JStr ''kafka''
              \<and> (substring0 element 3 = ''jmx'' \<or> substring0 element 4 = CHR 0x27 # ''jmx'')
      then (res, con)
      else
        let lastSpace = lastIndexOf element CHR '' '';
            metric = slice element 0 lastSpace;
            value = StringToNumber (slice_from element (lastSpace + 1))
        in if \<not> is_NaN value
           then (res @ [\<lparr>metric = metric, val = JNum value, time = t, category = ''Event''\<rparr>],
                 con)
           else (res, con @ [Invalid_metric element]))"

fun extractWord_loop ::
  "jsval \<Rightarrow> int \<Rightarrow> string list \<Rightarrow> metric_record list \<times> log_entry list
     \<Rightarrow> metric_record list \<times> log_entry list" where
  "extractWord_loop m t [] st = st"
| "extractWord_loop m t (element # arr) st =
     extractWord_loop m t arr (extractWord_body m t element st)"

text \<open>\<open>text.split\<close> is a function only when \<open>text\<close> is a string.\<close>

definition extractWord :: "jsval \<Rightarrow> jsval \<Rightarrow> world \<Rightarrow> (error + metric_record list) \<times> world" where
  "extractWord m text w =
     (case text of
        JStr s \<Rightarrow>
          let arr = split (CHR 0x0A) s;
              (t, w1) = Date_now w;
              (res, con) = extractWord_loop m t arr ([], console w1)
          in (Inr res, w1\<lparr>console := con\<rparr>)
      | _ \<Rightarrow> (Inl TypeError, w))"

subsection \<open>parseProm\<close>

text \<open>\<open>info.metric.job\<close>\<close>

definition entry_job :: "jsval \<Rightarrow> error + jsval" where
  "entry_job info = (case Get info ''metric'' of Inl e \<Rightarrow> Inl e | Inr m \<Rightarrow> Get m ''job'')"

text \<open>\<open>info.metric.job + '/' + info.metric.instance + '/' + info.metric['__name__']\<close>\<close>

definition entry_name :: "(jsnum \<Rightarrow> string) \<Rightarrow> jsval \<Rightarrow> error + string" where
  "entry_name ns info =
     (case entry_job info of Inl e \<Rightarrow> Inl e | Inr job \<Rightarrow>
      case ToString ns job of Inl e \<Rightarrow> Inl e | Inr j \<Rightarrow>
      case Get info ''metric'' of Inl e \<Rightarrow> Inl e | Inr m \<Rightarrow>
      case Get m ''instance'' of Inl e \<Rightarrow> Inl e | Inr inst \<Rightarrow>
      case ToString ns inst of Inl e \<Rightarrow> Inl e | Inr i \<Rightarrow>
      case Get m ''__name__'' of Inl e \<Rightarrow> Inl e | Inr nm \<Rightarrow>
      case ToString ns nm of Inl e \<Rightarrow> Inl e | Inr n \<Rightarrow>
      Inr (j @ ''/'' @ i @ ''/'' @ n))"

text \<open>
  \<open>let value = info.value; if (value.constructor.name === 'Array') value = info.value[1];\<close>
\<close>

definition entry_value :: "jsval \<Rightarrow> error + jsval" where
  "entry_value info =
     (case Get info ''value'' of Inl e \<Rightarrow> Inl e | Inr value \<Rightarrow>
      case constructor_name value of Inl e \<Rightarrow> Inl e | Inr c \<Rightarrow>
      Inr (if c = JStr ''Array'' then index1 value else value))"

text \<open>One round of the loop, on the state made of the set \<open>names\<close> and the array \<open>res\<close>.\<close>

definition parseProm_body ::
  "(jsnum \<Rightarrow> string) \<Rightarrow> int \<Rightarrow> jsval \<Rightarrow> string set \<times> metric_record list
     \<Rightarrow> error + string set \<times> metric_record list" where
  "parseProm_body ns t info st =
     (case st of (names, res) \<Rightarrow>
      case entry_job info of Inl e \<Rightarrow> Inl e | Inr job \<Rightarrow>
      if \<not> ToBoolean job then Inr (names, res)
      else
      case entry_name ns info of Inl e \<Rightarrow> Inl e | Inr name \<Rightarrow>
      if name \<in> names then Inr (names, res)
      else
      case entry_value info of Inl e \<Rightarrow> Inl e | Inr value \<Rightarrow>
      case isNaN ns value of Inl e \<Rightarrow> Inl e | Inr nan \<Rightarrow>
      if nan \<or> value = JStr ''NaN'' then Inr (insert name names, res)
      else Inr (insert name names,
                res @ [\<lparr>metric = name, val = value, time = t, category = ''Event''\<rparr>]))"

fun parseProm_loop ::
  "(jsnum \<Rightarrow> string) \<Rightarrow> int \<Rightarrow> jsval list \<Rightarrow> string set \<times> metric_record list
     \<Rightarrow> error + string set \<times> metric_record list" where
  "parseProm_loop ns t [] st = Inr st"
| "parseProm_loop ns t (info # rest) st =
     (case parseProm_body ns t info st of
        Inl e \<Rightarrow> Inl e
      | Inr st' \<Rightarrow> parseProm_loop ns t rest st')"

definition parseProm ::
  "(jsnum \<Rightarrow> string) \<Rightarrow> jsval \<Rightarrow> world \<Rightarrow> (error + metric_record list) \<times> world" where
  "parseProm ns data w =
     (let (t, w1) = Date_now w
      in case iterate data of
           Inl e \<Rightarrow> (Inl e, w1)
         | Inr infos \<Rightarrow>
             (case parseProm_loop ns t infos ({}, []) of
                Inl e \<Rightarrow> (Inl e, w1)
              | Inr (names, res) \<Rightarrow> (Inr res, w1)))"

subsection \<open>The two queries\<close>

text \<open>
  What a query resolves to: the batch, or undefined, which is what \<open>console.error\<close>
  returns in the \<open>catch\<close> branch. A rejected promise is an \<open>Inl\<close>. The HTTP client
  \<open>axios.get\<close> is a parameter: the response, or the error of the failed request.
\<close>

datatype returned = Undefined | Batch "metric_record list"

definition kafkaMetricsQuery ::
  "(jsnum \<Rightarrow> string) \<Rightarrow> (jsval \<Rightarrow> error + jsval) \<Rightarrow> config \<Rightarrow> world
     \<Rightarrow> (error + returned) \<times> world" where
  "kafkaMetricsQuery ns axios_get cfg w =
     (case getMetricsURI ns cfg of
        Inl e \<Rightarrow> (Inl e, w)
      | Inr URI \<Rightarrow>
          (case axios_get URI of
             Inl e \<Rightarrow> (Inr Undefined, console_error (Fetch_failed (mode cfg) URI e) w)
           | Inr response \<Rightarrow>
               (case Get response ''data'' of
                  Inl e \<Rightarrow> (Inr Undefined, console_error (Fetch_failed (mode cfg) URI e) w)
                | Inr text \<Rightarrow>
                    (case extractWord (mode cfg) text w of
                       (Inl e, w') \<Rightarrow>
                         (Inr Undefined, console_error (Fetch_failed (mode cfg) URI e) w')
                     | (Inr res, w') \<Rightarrow> (Inr (Batch res), w')))))"

text \<open>\<open>encodeURIComponent('{__name__=~".+",container=""}')\<close>\<close>

definition encoded_query :: string where
  "encoded_query = ''%7B__name__%3D~%22.%2B%22%2Ccontainer%3D%22%22%7D''"

definition promMetricsQuery ::
  "(jsnum \<Rightarrow> string) \<Rightarrow> (jsval \<Rightarrow> error + jsval) \<Rightarrow> config \<Rightarrow> world
     \<Rightarrow> (error + returned) \<times> world" where
  "promMetricsQuery ns axios_get cfg w =
     (case getMetricsURI ns cfg of
        Inl e \<Rightarrow> (Inl e, w)
      | Inr URI \<Rightarrow>
          (case ToString ns URI of
             Inl e \<Rightarrow> (Inl e, w)
           | Inr u \<Rightarrow>
               let query = JStr (u @ encoded_query);
                   failed = (\<lambda>e w'. (Inr Undefined, console_error (Fetch_failed (mode cfg) URI e) w'))
               in case axios_get query of Inl e \<Rightarrow> failed e w | Inr response \<Rightarrow>
                  case Get response ''data'' of Inl e \<Rightarrow> failed e w | Inr d1 \<Rightarrow>
                  case Get d1 ''data'' of Inl e \<Rightarrow> failed e w | Inr d2 \<Rightarrow>
                  case Get d2 ''result'' of Inl e \<Rightarrow> failed e w | Inr result \<Rightarrow>
                  case parseProm ns result w of
                    (Inl e, w') \<Rightarrow> failed e w'
                  | (Inr res, w') \<Rightarrow> (Inr (Batch res), w')))"

section \<open>What a batch of structured mode retains\<close>

text \<open>
  The identity under which an entry is deduplicated: the name built from its job,
  instance and \<open>__name__\<close>, for an entry whose job is truthy.
\<close>

definition entry_identity :: "(jsnum \<Rightarrow> string) \<Rightarrow> jsval \<Rightarrow> string option" where
  "entry_identity ns info =
     (case entry_job info of
        Inl e \<Rightarrow> None
      | Inr job \<Rightarrow>
          if ToBoolean job
          then (case entry_name ns info of Inl e \<Rightarrow> None | Inr name \<Rightarrow> Some name)
          else None)"

text \<open>The sample of an entry: its candidate value, when that passes the NaN test.\<close>

definition entry_sample :: "(jsnum \<Rightarrow> string) \<Rightarrow> jsval \<Rightarrow> jsval option" where
  "entry_sample ns info =
     (case entry_value info of
        Inl e \<Rightarrow> None
      | Inr v \<Rightarrow>
          (case isNaN ns v of
             Inl e \<Rightarrow> None
           | Inr nan \<Rightarrow> if nan \<or> v = JStr ''NaN'' then None else Some v))"

text \<open>
  The records that the entry at position \<open>i\<close> of a payload is expected to leave in the
  batch: one record, when the entry has an identity that no earlier entry has and its
  sample passes the test, and none otherwise.
\<close>

definition retained :: "(jsnum \<Rightarrow> string) \<Rightarrow> int \<Rightarrow> jsval list \<Rightarrow> nat \<Rightarrow> metric_record list" where
  "retained ns t infos i =
     (case entry_identity ns (infos ! i) of
        None \<Rightarrow> []
      | Some name \<Rightarrow>
          if \<exists>j<i. entry_identity ns (infos ! j) = Some name then []
          else (case entry_sample ns (infos ! i) of
                  None \<Rightarrow> []
                | Some v \<Rightarrow> [\<lparr>metric = name, val = v, time = t, category = ''Event''\<rparr>]))"

section \<open>Properties of the text path\<close>

subsection \<open>Strings\<close>

lemma lastIndexOf_absent: "d \<notin> set s \<Longrightarrow> lastIndexOf s d = -1"
  by (induction s) (auto simp: Let_def)

lemma lastIndexOf_last:
  "d \<notin> set post \<Longrightarrow> lastIndexOf (pre @ d # post) d = int (length pre)"
  by (induction pre) (auto simp: Let_def lastIndexOf_absent)

lemma slice_prefix: "slice (pre @ post) 0 (int (length pre)) = pre"
  by (simp add: slice_def rel_index_def Let_def)

lemma slice_from_suffix: "slice_from (pre @ d # post) (int (length pre) + 1) = post"
  by (simp add: slice_from_def rel_index_def nat_add_distrib)

lemma slice_butlast: "slice s 0 (- 1) = butlast s"
  by (cases s rule: rev_cases)
    (simp_all add: slice_def rel_index_def Let_def butlast_conv_take nat_diff_distrib)

lemma slice_from_0: "slice_from s 0 = s"
  by (simp add: slice_from_def rel_index_def)

lemmas number_eval = StringToNumber_def trim_def is_ws_def unsigned_decimal_def is_digit_def
  digit_of_def digits_value_def exponent_part_def radix_literal_def negate_def is_NaN_def

lemmas line_eval = extractWord_body_def substring0_def slice_def slice_from_def rel_index_def
  Let_def

subsection \<open>What one line adds to the batch\<close>

lemma extractWord_body_acc:
  "extractWord_body m t l (res, con) =
     (res @ fst (extractWord_body m t l ([], [])), con @ snd (extractWord_body m t l ([], [])))"
  by (auto simp add: extractWord_body_def Let_def)

lemma extractWord_loop_acc:
  "extractWord_loop m t ls (res, con) =
     (res @ fst (extractWord_loop m t ls ([], [])), con @ snd (extractWord_loop m t ls ([], [])))"
proof (induction ls arbitrary: res con)
  case Nil
  show ?case by simp
next
  case (Cons l ls)
  obtain r d where b: "extractWord_body m t l ([], []) = (r, d)"
    by (cases "extractWord_body m t l ([], [])")
  have "extractWord_loop m t (l # ls) (res, con) = extractWord_loop m t ls (res @ r, con @ d)"
    by (simp add: extractWord_body_acc [of m t l res con] b)
  also have "\<dots> = ((res @ r) @ fst (extractWord_loop m t ls ([], [])),
                    (con @ d) @ snd (extractWord_loop m t ls ([], [])))"
    by (rule Cons.IH)
  also have "extractWord_loop m t ls (r, d) =
      (r @ fst (extractWord_loop m t ls ([], [])), d @ snd (extractWord_loop m t ls ([], [])))"
    by (rule Cons.IH)
  then have "((res @ r) @ fst (extractWord_loop m t ls ([], [])),
              (con @ d) @ snd (extractWord_loop m t ls ([], []))) =
      (res @ fst (extractWord_loop m t (l # ls) ([], [])),
       con @ snd (extractWord_loop m t (l # ls) ([], [])))"
    by (simp add: b)
  finally show ?case .
qed

lemma extractWord_loop_append:
  "extractWord_loop m t (xs @ ys) st = extractWord_loop m t ys (extractWord_loop m t xs st)"
  by (induction xs arbitrary: st) simp_all

lemma extractWord_loop_split:
  assumes "extractWord_loop m t before ([], []) = (rb, db)"
    and "extractWord_body m t l ([], []) = (rl, dl)"
    and "extractWord_loop m t after ([], []) = (ra, da)"
  shows "extractWord_loop m t (before @ l # after) (res, con) =
           (res @ rb @ rl @ ra, con @ db @ dl @ da)"
proof -
  have 1: "extractWord_loop m t before (res, con) = (res @ rb, con @ db)"
    using extractWord_loop_acc [of m t before res con] assms(1) by simp
  have 2: "extractWord_body m t l (res @ rb, con @ db) = (res @ rb @ rl, con @ db @ dl)"
    using extractWord_body_acc [of m t l "res @ rb" "con @ db"] assms(2) by simp
  have 3: "extractWord_loop m t after (res @ rb @ rl, con @ db @ dl)
             = (res @ rb @ rl @ ra, con @ db @ dl @ da)"
    using extractWord_loop_acc [of m t after "res @ rb @ rl" "con @ db @ dl"] assms(3) by simp
  show ?thesis
    by (simp add: extractWord_loop_append 1 2 3)
qed

text \<open>
  The batch of a text whose lines are \<open>before\<close>, \<open>l\<close> and \<open>after\<close>: the records of
  \<open>before\<close>, those of \<open>l\<close>, those of \<open>after\<close>; and likewise for the diagnostics.
\<close>

lemma extractWord_lines:
  assumes "split (CHR 0x0A) s = before @ l # after"
    and "extractWord_loop m (clock w (ticks w)) before ([], []) = (rb, db)"
    and "extractWord_body m (clock w (ticks w)) l ([], []) = (rl, dl)"
    and "extractWord_loop m (clock w (ticks w)) after ([], []) = (ra, da)"
  shows "extractWord m (JStr s) w =
           (Inr (rb @ rl @ ra),
            w\<lparr>ticks := Suc (ticks w), console := console w @ db @ dl @ da\<rparr>)"
  using extractWord_loop_split [OF assms(2,3,4), of "[]" "console w"]
  by (simp add: extractWord_def Date_now_def assms(1))

subsection \<open>A line with a space\<close>

text \<open>
  Claim C4. In text mode, take a line \<open>l\<close> of the payload that survives the filters
  (not empty, not a comment, not a suppressed prefix) and has a last space:
  \<open>l = name @ " " @ tok\<close> with no space in \<open>tok\<close>. The metric is \<open>name\<close>, everything
  before the last space, embedded spaces included; the candidate value is \<open>tok\<close>. If
  \<open>tok\<close> coerces to a number, the line adds exactly one record, with that metric and that
  number, at its place in the batch, and no diagnostic; otherwise it adds no record and
  one diagnostic naming the line.
\<close>

theorem extractWord_line_with_space:
  assumes "split (CHR 0x0A) s = before @ l # after"
    and "l \<noteq> []" and "hd l \<noteq> CHR ''#''"
    and "\<not> (m = JStr ''kafka'' \<and> (take 3 l = ''jmx'' \<or> take 4 l = CHR 0x27 # ''jmx''))"
    and "l = name @ CHR '' '' # tok" and "CHR '' '' \<notin> set tok"
    and "extractWord_loop m (clock w (ticks w)) before ([], []) = (rb, db)"
    and "extractWord_loop m (clock w (ticks w)) after ([], []) = (ra, da)"
  shows "extractWord m (JStr s) w =
      (if is_NaN (StringToNumber tok)
       then (Inr (rb @ ra),
             w\<lparr>ticks := Suc (ticks w), console := console w @ db @ [Invalid_metric l] @ da\<rparr>)
       else (Inr (rb @ [\<lparr>metric = name, val = JNum (StringToNumber tok),
                        time = clock w (ticks w), category = ''Event''\<rparr>] @ ra),
             w\<lparr>ticks := Suc (ticks w), console := console w @ db @ da\<rparr>))"
proof -
  let ?t = "clock w (ticks w)"
  have first: "take 1 l \<noteq> ''#''"
    using assms(2,3) by (cases l) simp_all
  have idx: "lastIndexOf l CHR '' '' = int (length name)"
    unfolding assms(5) using assms(6) by (rule lastIndexOf_last)
  have m: "slice l 0 (int (length name)) = name"
    unfolding assms(5) by (rule slice_prefix)
  have v: "slice_from l (int (length name) + 1) = tok"
    unfolding assms(5) by (rule slice_from_suffix)
  have body: "extractWord_body m ?t l ([], []) =
      (if is_NaN (StringToNumber tok) then ([], [Invalid_metric l])
       else ([\<lparr>metric = name, val = JNum (StringToNumber tok), time = ?t,
               category = ''Event''\<rparr>], []))"
    using assms(2,4) first by (simp add: extractWord_body_def substring0_def idx m v)
  show ?thesis
  proof (cases "is_NaN (StringToNumber tok)")
    case True
    with body have "extractWord_body m ?t l ([], []) = ([], [Invalid_metric l])" by simp
    from extractWord_lines [OF assms(1) assms(7) this assms(8)] True show ?thesis by simp
  next
    case False
    with body have "extractWord_body m ?t l ([], []) =
        ([\<lparr>metric = name, val = JNum (StringToNumber tok), time = ?t,
               category = ''Event''\<rparr>], [])" by simp
    from extractWord_lines [OF assms(1) assms(7) this assms(8)] False show ?thesis by simp
  qed
qed

text \<open>
  A payload of three lines in mode \<open>kafka\<close>: a comment, a sample and a line whose last
  token is not a number. The sample gives the one record, the last line a diagnostic.
\<close>

theorem extractWord_line_with_space_witness:
  "extractWord (JStr ''kafka'')
     (JStr (''# HELP x'' @ [CHR 0x0A]
            @ ''kafka_server_BrokerTopicMetrics_OneMinuteRate 12.5'' @ [CHR 0x0A] @ ''b c d''))
     \<lparr>clock = (\<lambda>k. 1000 + int k), ticks = 0, console = []\<rparr>
   = (Inr [\<lparr>metric = ''kafka_server_BrokerTopicMetrics_OneMinuteRate'',
            val = JNum (Finite (25 / 2)), time = 1000, category = ''Event''\<rparr>],
      \<lparr>clock = (\<lambda>k. 1000 + int k), ticks = 1, console = [Invalid_metric ''b c d'']\<rparr>)"
proof -
  let ?l = "''kafka_server_BrokerTopicMetrics_OneMinuteRate 12.5''"
  let ?w = "\<lparr>clock = (\<lambda>k. 1000 + int k), ticks = 0, console = []\<rparr>"
  have lines: "split (CHR 0x0A) (''# HELP x'' @ [CHR 0x0A] @ ?l @ [CHR 0x0A] @ ''b c d'')
      = [''# HELP x''] @ ?l # [''b c d'']"
    by simp
  have ne: "?l \<noteq> []" and nc: "hd ?l \<noteq> CHR ''#''"
    and np: "\<not> (JStr ''kafka'' = JStr ''kafka'' \<and> (take 3 ?l = ''jmx'' \<or> take 4 ?l = CHR 0x27 # ''jmx''))"
    and sp: "?l = ''kafka_server_BrokerTopicMetrics_OneMinuteRate'' @ CHR '' '' # ''12.5''"
    and ns: "CHR '' '' \<notin> set ''12.5''"
    by simp_all
  have b: "extractWord_loop (JStr ''kafka'') (clock ?w (ticks ?w)) [''# HELP x''] ([], []) = ([], [])"
    by (simp add: extractWord_body_def)
  have a: "extractWord_loop (JStr ''kafka'') (clock ?w (ticks ?w)) [''b c d''] ([], [])
      = ([], [Invalid_metric ''b c d''])"
    by (simp add: line_eval number_eval)
  have n: "StringToNumber ''12.5'' = Finite (25 / 2)"
    by (simp add: number_eval)
  show ?thesis
    using extractWord_line_with_space [OF lines ne nc np sp ns b a]
    by (simp add: n is_NaN_def)
qed

subsection \<open>A line without a space\<close>

text \<open>
  Claim C9, as the code has it. In text mode, take a line \<open>l\<close> of the payload that
  survives the filters and contains no space. The last-space index is \<open>-1\<close>, the metric
  is \<open>l\<close> without its final character and the candidate value is the whole line. The
  lack of a space is no ground for rejection: the line adds exactly one record when the
  whole line coerces to a number, and is rejected with a diagnostic, as any other line,
  when it does not.
\<close>

theorem extractWord_line_without_space:
  assumes "split (CHR 0x0A) s = before @ l # after"
    and "l \<noteq> []" and "hd l \<noteq> CHR ''#''"
    and "\<not> (m = JStr ''kafka'' \<and> (take 3 l = ''jmx'' \<or> take 4 l = CHR 0x27 # ''jmx''))"
    and "CHR '' '' \<notin> set l"
    and "extractWord_loop m (clock w (ticks w)) before ([], []) = (rb, db)"
    and "extractWord_loop m (clock w (ticks w)) after ([], []) = (ra, da)"
  shows "lastIndexOf l CHR '' '' = - 1 \<and>
     extractWord m (JStr s) w =
      (if is_NaN (StringToNumber l)
       then (Inr (rb @ ra),
             w\<lparr>ticks := Suc (ticks w), console := console w @ db @ [Invalid_metric l] @ da\<rparr>)
       else (Inr (rb @ [\<lparr>metric = butlast l, val = JNum (StringToNumber l),
                        time = clock w (ticks w), category = ''Event''\<rparr>] @ ra),
             w\<lparr>ticks := Suc (ticks w), console := console w @ db @ da\<rparr>))"
proof -
  let ?t = "clock w (ticks w)"
  have first: "take 1 l \<noteq> ''#''"
    using assms(2,3) by (cases l) simp_all
  have idx: "lastIndexOf l CHR '' '' = - 1"
    using assms(5) by (rule lastIndexOf_absent)
  have body: "extractWord_body m ?t l ([], []) =
      (if is_NaN (StringToNumber l) then ([], [Invalid_metric l])
       else ([\<lparr>metric = butlast l, val = JNum (StringToNumber l), time = ?t,
               category = ''Event''\<rparr>], []))"
    using assms(2,4) first
    by (simp add: extractWord_body_def substring0_def idx slice_butlast slice_from_0)
  have "extractWord m (JStr s) w =
      (if is_NaN (StringToNumber l)
       then (Inr (rb @ ra),
             w\<lparr>ticks := Suc (ticks w), console := console w @ db @ [Invalid_metric l] @ da\<rparr>)
       else (Inr (rb @ [\<lparr>metric = butlast l, val = JNum (StringToNumber l),
                        time = clock w (ticks w), category = ''Event''\<rparr>] @ ra),
             w\<lparr>ticks := Suc (ticks w), console := console w @ db @ da\<rparr>))"
  proof (cases "is_NaN (StringToNumber l)")
    case True
    with body have "extractWord_body m ?t l ([], []) = ([], [Invalid_metric l])" by simp
    from extractWord_lines [OF assms(1) assms(6) this assms(7)] True show ?thesis by simp
  next
    case False
    with body have "extractWord_body m ?t l ([], []) =
        ([\<lparr>metric = butlast l, val = JNum (StringToNumber l), time = ?t,
               category = ''Event''\<rparr>], [])" by simp
    from extractWord_lines [OF assms(1) assms(6) this assms(7)] False show ?thesis by simp
  qed
  with idx show ?thesis by simp
qed

text \<open>The line \<open>42\<close> alone gives the record of metric \<open>4\<close> and value 42.\<close>

theorem extractWord_line_without_space_witness:
  "extractWord (JStr ''kafka'') (JStr ''42'')
     \<lparr>clock = (\<lambda>k. 1000 + int k), ticks = 0, console = []\<rparr>
   = (Inr [\<lparr>metric = ''4'', val = JNum (Finite 42), time = 1000, category = ''Event''\<rparr>],
      \<lparr>clock = (\<lambda>k. 1000 + int k), ticks = 1, console = []\<rparr>)"
proof -
  let ?w = "\<lparr>clock = (\<lambda>k. 1000 + int k), ticks = 0, console = []\<rparr>"
  have lines: "split (CHR 0x0A) ''42'' = [] @ ''42'' # []"
    by simp
  have ne: "''42'' \<noteq> []" and nc: "hd ''42'' \<noteq> CHR ''#''"
    and np: "\<not> (JStr ''kafka'' = JStr ''kafka''
                \<and> (take 3 ''42'' = ''jmx'' \<or> take 4 ''42'' = CHR 0x27 # ''jmx''))"
    and ns: "CHR '' '' \<notin> set ''42''"
    by simp_all
  have e: "extractWord_loop (JStr ''kafka'') (clock ?w (ticks ?w)) [] ([], []) = ([], [])"
    by simp
  have n: "StringToNumber ''42'' = Finite 42"
    by (simp add: number_eval)
  show ?thesis
    using extractWord_line_without_space [OF lines ne nc np ns e e]
    by (simp add: n is_NaN_def)
qed

text \<open>
  The claim as it was stated says that such lines are not rejected. The line \<open>abc\<close>
  survives the filters and has no space; it gives no record and one diagnostic.
\<close>

theorem extractWord_line_without_space_rejected:
  "CHR '' '' \<notin> set ''abc'' \<and>
   extractWord (JStr ''kafka'') (JStr ''abc'')
     \<lparr>clock = (\<lambda>k. 1000 + int k), ticks = 0, console = []\<rparr>
   = (Inr [], \<lparr>clock = (\<lambda>k. 1000 + int k), ticks = 1, console = [Invalid_metric ''abc'']\<rparr>)"
proof -
  have n: "StringToNumber ''abc'' = NaN"
    by (simp add: number_eval)
  have b: "extractWord_body (JStr ''kafka'') 1000 ''abc'' ([], []) = ([], [Invalid_metric ''abc''])"
    by (simp add: line_eval n is_NaN_def)
  show ?thesis
    by (simp add: extractWord_def Date_now_def b)
qed

subsection \<open>Lines that are skipped\<close>

text \<open>
  Claim C7. In text mode, an empty line and a line whose first character is \<open>#\<close> add no
  record (and no diagnostic). In mode \<open>kafka\<close> a line whose first three characters are
  \<open>jmx\<close>, or whose first four are \<open>'jmx\<close>, adds no record either. In every other mode
  the prefix is not looked at: such a line is parsed as any line is, and adds its record
  when its last token is a number and a diagnostic when it is not.
\<close>

theorem extractWord_skipped_lines:
  assumes "split (CHR 0x0A) s = before @ l # after"
    and "extractWord_loop m (clock w (ticks w)) before ([], []) = (rb, db)"
    and "extractWord_loop m (clock w (ticks w)) after ([], []) = (ra, da)"
  shows "(l = [] \<or> (\<exists>r. l = CHR ''#'' # r)
            \<or> m = JStr ''kafka'' \<and> (take 3 l = ''jmx'' \<or> take 4 l = CHR 0x27 # ''jmx'')
          \<longrightarrow> extractWord m (JStr s) w =
                (Inr (rb @ ra), w\<lparr>ticks := Suc (ticks w), console := console w @ db @ da\<rparr>))
       \<and> (m \<noteq> JStr ''kafka'' \<and> (take 3 l = ''jmx'' \<or> take 4 l = CHR 0x27 # ''jmx'')
          \<longrightarrow> extractWord m (JStr s) w =
                (let i = lastIndexOf l CHR '' ''; v = StringToNumber (slice_from l (i + 1))
                 in if is_NaN v
                    then (Inr (rb @ ra),
                          w\<lparr>ticks := Suc (ticks w),
                             console := console w @ db @ [Invalid_metric l] @ da\<rparr>)
                    else (Inr (rb @ [\<lparr>metric = slice l 0 i, val = JNum v,
                                     time = clock w (ticks w), category = ''Event''\<rparr>] @ ra),
                          w\<lparr>ticks := Suc (ticks w), console := console w @ db @ da\<rparr>)))"
proof (intro conjI impI)
  let ?t = "clock w (ticks w)"
  assume "l = [] \<or> (\<exists>r. l = CHR ''#'' # r)
            \<or> m = JStr ''kafka'' \<and> (take 3 l = ''jmx'' \<or> take 4 l = CHR 0x27 # ''jmx'')"
  then have "extractWord_body m ?t l ([], []) = ([], [])"
    by (auto simp add: extractWord_body_def substring0_def)
  from extractWord_lines [OF assms(1) assms(2) this assms(3)]
  show "extractWord m (JStr s) w =
          (Inr (rb @ ra), w\<lparr>ticks := Suc (ticks w), console := console w @ db @ da\<rparr>)"
    by simp
next
  let ?t = "clock w (ticks w)"
  let ?i = "lastIndexOf l CHR '' ''"
  let ?v = "StringToNumber (slice_from l (?i + 1))"
  assume a: "m \<noteq> JStr ''kafka'' \<and> (take 3 l = ''jmx'' \<or> take 4 l = CHR 0x27 # ''jmx'')"
  then have ne: "l \<noteq> []" and first: "take 1 l \<noteq> ''#''"
    by (cases l; auto)+
  have body: "extractWord_body m ?t l ([], []) =
      (if is_NaN ?v then ([], [Invalid_metric l])
       else ([\<lparr>metric = slice l 0 ?i, val = JNum ?v, time = ?t, category = ''Event''\<rparr>], []))"
    using a ne first by (simp add: extractWord_body_def Let_def)
  show "extractWord m (JStr s) w =
          (let i = ?i; v = StringToNumber (slice_from l (i + 1))
           in if is_NaN v
              then (Inr (rb @ ra),
                    w\<lparr>ticks := Suc (ticks w),
                       console := console w @ db @ [Invalid_metric l] @ da\<rparr>)
              else (Inr (rb @ [\<lparr>metric = slice l 0 i, val = JNum v,
                               time = clock w (ticks w), category = ''Event''\<rparr>] @ ra),
                    w\<lparr>ticks := Suc (ticks w), console := console w @ db @ da\<rparr>))"
  proof (cases "is_NaN ?v")
    case True
    with body have "extractWord_body m ?t l ([], []) = ([], [Invalid_metric l])" by simp
    from extractWord_lines [OF assms(1) assms(2) this assms(3)] True
    show ?thesis by (simp add: Let_def)
  next
    case False
    with body have "extractWord_body m ?t l ([], []) =
        ([\<lparr>metric = slice l 0 ?i, val = JNum ?v, time = ?t, category = ''Event''\<rparr>], [])"
      by simp
    from extractWord_lines [OF assms(1) assms(2) this assms(3)] False
    show ?thesis by (simp add: Let_def)
  qed
qed

text \<open>
  The line \<open>jmx_scrape_duration_seconds 0.01\<close> after a comment: no record in mode
  \<open>kafka\<close>, one record in mode \<open>kubernetes\<close>.
\<close>

theorem extractWord_skipped_lines_witness:
  "extractWord (JStr ''kafka'')
     (JStr (''# HELP'' @ [CHR 0x0A] @ ''jmx_scrape_duration_seconds 0.01''))
     \<lparr>clock = (\<lambda>k. 1000 + int k), ticks = 0, console = []\<rparr>
   = (Inr [], \<lparr>clock = (\<lambda>k. 1000 + int k), ticks = 1, console = []\<rparr>)
   \<and> extractWord (JStr ''kubernetes'')
     (JStr (''# HELP'' @ [CHR 0x0A] @ ''jmx_scrape_duration_seconds 0.01''))
     \<lparr>clock = (\<lambda>k. 1000 + int k), ticks = 0, console = []\<rparr>
   = (Inr [\<lparr>metric = ''jmx_scrape_duration_seconds'', val = JNum (Finite (1 / 100)),
            time = 1000, category = ''Event''\<rparr>],
      \<lparr>clock = (\<lambda>k. 1000 + int k), ticks = 1, console = []\<rparr>)"
proof -
  let ?l = "''jmx_scrape_duration_seconds 0.01''"
  let ?w = "\<lparr>clock = (\<lambda>k. 1000 + int k), ticks = 0, console = []\<rparr>"
  have lines: "split (CHR 0x0A) (''# HELP'' @ [CHR 0x0A] @ ?l) = [''# HELP''] @ ?l # []"
    by simp
  have b: "extractWord_loop m (clock ?w (ticks ?w)) [''# HELP''] ([], []) = ([], [])" for m
    by (simp add: extractWord_body_def)
  have a: "extractWord_loop m (clock ?w (ticks ?w)) [] ([], []) = ([], [])" for m
    by simp
  have p: "take 3 ?l = ''jmx''"
    by simp
  have i: "lastIndexOf ?l CHR '' '' = 27"
    by (simp add: Let_def)
  have v: "slice_from ?l 28 = ''0.01''" and n: "slice ?l 0 27 = ''jmx_scrape_duration_seconds''"
    by (simp_all add: slice_from_def slice_def rel_index_def)
  have x: "StringToNumber ''0.01'' = Finite (1 / 100)"
    by (simp add: number_eval)
  have 1: "extractWord (JStr ''kafka'') (JStr (''# HELP'' @ [CHR 0x0A] @ ?l)) ?w
      = (Inr [], \<lparr>clock = (\<lambda>k. 1000 + int k), ticks = 1, console = []\<rparr>)"
    using extractWord_skipped_lines [OF lines b a, of "JStr ''kafka''"] p by simp
  have 2: "extractWord (JStr ''kubernetes'') (JStr (''# HELP'' @ [CHR 0x0A] @ ?l)) ?w
      = (Inr [\<lparr>metric = ''jmx_scrape_duration_seconds'', val = JNum (Finite (1 / 100)),
            time = 1000, category = ''Event''\<rparr>],
         \<lparr>clock = (\<lambda>k. 1000 + int k), ticks = 1, console = []\<rparr>)"
    using extractWord_skipped_lines [OF lines b a, of "JStr ''kubernetes''"] p
    by (simp add: i v n x is_NaN_def)
  from 1 2 show ?thesis by simp
qed

section \<open>Properties of the structured path\<close>

lemma parseProm_loop_append:
  "parseProm_loop ns t (xs @ ys) st =
     (case parseProm_loop ns t xs st of Inl e \<Rightarrow> Inl e | Inr st' \<Rightarrow> parseProm_loop ns t ys st')"
  by (induction xs arbitrary: st) (simp_all split: sum.splits)

lemma parseProm_JArr:
  "parseProm ns (JArr infos) w =
     (case parseProm_loop ns (clock w (ticks w)) infos ({}, []) of
        Inl e \<Rightarrow> (Inl e, w\<lparr>ticks := Suc (ticks w)\<rparr>)
      | Inr st \<Rightarrow> (Inr (snd st), w\<lparr>ticks := Suc (ticks w)\<rparr>))"
  by (simp add: parseProm_def Date_now_def split: sum.splits prod.splits)

lemma isNaN_NaN_string: "isNaN ns (JStr ''NaN'') = Inr True"
  by (simp add: isNaN_def number_eval)

text \<open>The rounds of the loop, one case after the other.\<close>

lemma parseProm_body_falsy:
  "entry_job info = Inr job \<Longrightarrow> \<not> ToBoolean job \<Longrightarrow> parseProm_body ns t info st = Inr st"
  by (simp add: parseProm_body_def split: prod.splits)

lemma parseProm_body_seen:
  "entry_job info = Inr job \<Longrightarrow> ToBoolean job \<Longrightarrow> entry_name ns info = Inr name
     \<Longrightarrow> name \<in> names \<Longrightarrow> parseProm_body ns t info (names, res) = Inr (names, res)"
  by (simp add: parseProm_body_def)

lemma parseProm_body_fresh:
  "entry_job info = Inr job \<Longrightarrow> ToBoolean job \<Longrightarrow> entry_name ns info = Inr name
     \<Longrightarrow> name \<notin> names \<Longrightarrow> entry_value info = Inr v \<Longrightarrow> isNaN ns v = Inr nan
     \<Longrightarrow> parseProm_body ns t info (names, res) =
           Inr (insert name names,
                if nan then res
                else res @ [\<lparr>metric = name, val = v, time = t, category = ''Event''\<rparr>])"
  using isNaN_NaN_string [of ns] by (auto simp add: parseProm_body_def)

lemma parseProm_body_cases:
  assumes "parseProm_body ns t info (names, res) = Inr (names', res')"
  obtains
    (falsy) job where "entry_job info = Inr job" "\<not> ToBoolean job" "names' = names" "res' = res"
  | (seen) job name where "entry_job info = Inr job" "ToBoolean job"
      "entry_name ns info = Inr name" "name \<in> names" "names' = names" "res' = res"
  | (fresh) job name v nan where "entry_job info = Inr job" "ToBoolean job"
      "entry_name ns info = Inr name" "name \<notin> names" "entry_value info = Inr v"
      "isNaN ns v = Inr nan" "names' = insert name names"
      "res' = (if nan then res
               else res @ [\<lparr>metric = name, val = v, time = t, category = ''Event''\<rparr>])"
proof -
  obtain job where j: "entry_job info = Inr job"
    using assms by (cases "entry_job info") (simp_all add: parseProm_body_def)
  show thesis
  proof (cases "ToBoolean job")
    case False
    from parseProm_body_falsy [OF j False, of ns t "(names, res)"] assms
    have "names' = names" and "res' = res" by simp_all
    then show ?thesis by (rule falsy [OF j False])
  next
    case tb: True
    obtain name where n: "entry_name ns info = Inr name"
      using assms j tb by (cases "entry_name ns info") (simp_all add: parseProm_body_def)
    show ?thesis
    proof (cases "name \<in> names")
      case True
      from parseProm_body_seen [OF j tb n True, of t res] assms
      have "names' = names" and "res' = res" by simp_all
      then show ?thesis by (rule seen [OF j tb n True])
    next
      case False
      obtain v where v: "entry_value info = Inr v"
        using assms j tb n False
        by (cases "entry_value info") (simp_all add: parseProm_body_def)
      obtain nan where nan: "isNaN ns v = Inr nan"
        using assms j tb n False v
        by (cases "isNaN ns v") (simp_all add: parseProm_body_def)
      from parseProm_body_fresh [OF j tb n False v nan, of t res] assms
      have "names' = insert name names"
        and "res' = (if nan then res
               else res @ [\<lparr>metric = name, val = v, time = t, category = ''Event''\<rparr>])"
        by simp_all
      then show ?thesis by (rule fresh [OF j tb n False v nan])
    qed
  qed
qed

lemmas entry_eval = parseProm_JArr parseProm_body_def entry_job_def entry_name_def
  entry_value_def isNaN_def

subsection \<open>An entry without a job\<close>

text \<open>
  Claim C10. In structured mode, an entry whose metric object has a \<open>job\<close> field with a
  falsy value (the empty string, say) is skipped exactly as an entry whose metric object
  has no \<open>job\<close> field: in both cases the batch is the one of the payload without the
  entry. The check is on the truthiness of the value, not on the presence of the field.
\<close>

theorem parseProm_falsy_job_skipped:
  assumes "Get info ''metric'' = Inr (JObj m)"
    and "map_of m ''job'' = None \<or> (\<exists>j. map_of m ''job'' = Some j \<and> \<not> ToBoolean j)"
  shows "parseProm ns (JArr (before @ info # after)) w = parseProm ns (JArr (before @ after)) w"
proof -
  from assms obtain job where j: "entry_job info = Inr job" and f: "\<not> ToBoolean job"
    by (auto simp add: entry_job_def)
  have "parseProm_loop ns t (before @ info # after) st = parseProm_loop ns t (before @ after) st"
    for t st
    by (simp add: parseProm_loop_append parseProm_body_falsy [OF j f] split: sum.splits)
  then show ?thesis
    by (simp only: parseProm_JArr)
qed

text \<open>
  Two payloads of two entries: in the first the job of the first entry is the empty
  string, in the second the first entry has no job. Both give the record of the second
  entry alone.
\<close>

theorem parseProm_falsy_job_skipped_witness:
  "parseProm (\<lambda>n. [])
     (JArr [JObj [(''metric'', JObj [(''job'', JStr []), (''instance'', JStr ''h''),
                                     (''__name__'', JStr ''up'')]),
                  (''value'', JArr [JNum (Finite 1700000000), JStr ''1''])],
            JObj [(''metric'', JObj [(''job'', JStr ''api''), (''instance'', JStr ''h''),
                                     (''__name__'', JStr ''up'')]),
                  (''value'', JArr [JNum (Finite 1700000000), JStr ''2''])]])
     \<lparr>clock = (\<lambda>k. 1000 + int k), ticks = 0, console = []\<rparr>
   = (Inr [\<lparr>metric = ''api/h/up'', val = JStr ''2'', time = 1000, category = ''Event''\<rparr>],
      \<lparr>clock = (\<lambda>k. 1000 + int k), ticks = 1, console = []\<rparr>)
   \<and> parseProm (\<lambda>n. [])
     (JArr [JObj [(''metric'', JObj [(''instance'', JStr ''h''), (''__name__'', JStr ''up'')]),
                  (''value'', JArr [JNum (Finite 1700000000), JStr ''1''])],
            JObj [(''metric'', JObj [(''job'', JStr ''api''), (''instance'', JStr ''h''),
                                     (''__name__'', JStr ''up'')]),
                  (''value'', JArr [JNum (Finite 1700000000), JStr ''2''])]])
     \<lparr>clock = (\<lambda>k. 1000 + int k), ticks = 0, console = []\<rparr>
   = (Inr [\<lparr>metric = ''api/h/up'', val = JStr ''2'', time = 1000, category = ''Event''\<rparr>],
      \<lparr>clock = (\<lambda>k. 1000 + int k), ticks = 1, console = []\<rparr>)"
proof -
  let ?w = "\<lparr>clock = (\<lambda>k. 1000 + int k), ticks = 0, console = []\<rparr>"
  let ?m1 = "[(''job'', JStr []), (''instance'', JStr ''h''), (''__name__'', JStr ''up'')]"
  let ?m2 = "[(''instance'', JStr ''h''), (''__name__'', JStr ''up'')]"
  let ?v = "(''value'', JArr [JNum (Finite 1700000000), JStr ''1''])"
  let ?good = "JObj [(''metric'', JObj [(''job'', JStr ''api''), (''instance'', JStr ''h''),
                                       (''__name__'', JStr ''up'')]),
                    (''value'', JArr [JNum (Finite 1700000000), JStr ''2''])]"
  have n: "StringToNumber ''2'' = Finite 2"
    by (simp add: number_eval)
  have good: "parseProm (\<lambda>n. []) (JArr ([] @ [?good])) ?w
      = (Inr [\<lparr>metric = ''api/h/up'', val = JStr ''2'', time = 1000, category = ''Event''\<rparr>],
         \<lparr>clock = (\<lambda>k. 1000 + int k), ticks = 1, console = []\<rparr>)"
    by (simp add: entry_eval n is_NaN_def)
  have g1: "Get (JObj [(''metric'', JObj ?m1), ?v]) ''metric'' = Inr (JObj ?m1)"
    and g2: "Get (JObj [(''metric'', JObj ?m2), ?v]) ''metric'' = Inr (JObj ?m2)"
    by simp_all
  have j1: "map_of ?m1 ''job'' = None \<or> (\<exists>j. map_of ?m1 ''job'' = Some j \<and> \<not> ToBoolean j)"
    and j2: "map_of ?m2 ''job'' = None \<or> (\<exists>j. map_of ?m2 ''job'' = Some j \<and> \<not> ToBoolean j)"
    by simp_all
  from parseProm_falsy_job_skipped [OF g1 j1, of "\<lambda>n. []" "[]" "[?good]" ?w]
    parseProm_falsy_job_skipped [OF g2 j2, of "\<lambda>n. []" "[]" "[?good]" ?w] good
  show ?thesis by simp
qed

section \<open>Properties of the queries\<close>

subsection \<open>A mode that is not recognised\<close>

text \<open>
  Claim C8. For every mode other than \<open>kafka\<close> and \<open>kubernetes\<close>, the selection of the
  endpoint in \<open>getMetricsURI\<close> throws the error \<open>Unrecognized mode\<close>, and both queries fail
  with that error at once: no request is made, nothing is logged, and no batch, empty or
  not, is returned.
\<close>

theorem unrecognized_mode_throws:
  assumes "mode cfg \<noteq> JStr ''kafka''" and "mode cfg \<noteq> JStr ''kubernetes''"
  shows "getMetricsURI ns cfg = Inl (Error ''Unrecognized mode'')
       \<and> kafkaMetricsQuery ns axios_get cfg w = (Inl (Error ''Unrecognized mode''), w)
       \<and> promMetricsQuery ns axios_get cfg w = (Inl (Error ''Unrecognized mode''), w)"
proof -
  have u: "getMetricsURI ns cfg = Inl (Error ''Unrecognized mode'')"
    using assms by (simp add: getMetricsURI_def)
  then show ?thesis
    by (simp add: kafkaMetricsQuery_def promMetricsQuery_def)
qed

text \<open>The mode \<open>microservices\<close>, which the validation of the configuration accepts.\<close>

theorem unrecognized_mode_throws_witness:
  "getMetricsURI (\<lambda>n. [])
     \<lparr>mode = JStr ''microservices'', jmxuri = JUndefined, promService = JUndefined,
      promPort = JUndefined\<rparr> = Inl (Error ''Unrecognized mode'')
   \<and> kafkaMetricsQuery (\<lambda>n. []) (\<lambda>u. Inr (JObj [(''data'', JStr ''up 1'')]))
     \<lparr>mode = JStr ''microservices'', jmxuri = JUndefined, promService = JUndefined,
      promPort = JUndefined\<rparr>
     \<lparr>clock = (\<lambda>k. 1000 + int k), ticks = 0, console = []\<rparr>
     = (Inl (Error ''Unrecognized mode''),
        \<lparr>clock = (\<lambda>k. 1000 + int k), ticks = 0, console = []\<rparr>)
   \<and> promMetricsQuery (\<lambda>n. []) (\<lambda>u. Inr (JObj [(''data'', JStr ''up 1'')]))
     \<lparr>mode = JStr ''microservices'', jmxuri = JUndefined, promService = JUndefined,
      promPort = JUndefined\<rparr>
     \<lparr>clock = (\<lambda>k. 1000 + int k), ticks = 0, console = []\<rparr>
     = (Inl (Error ''Unrecognized mode''),
        \<lparr>clock = (\<lambda>k. 1000 + int k), ticks = 0, console = []\<rparr>)"
proof -
  let ?cfg = "\<lparr>mode = JStr ''microservices'', jmxuri = JUndefined, promService = JUndefined,
      promPort = JUndefined\<rparr>"
  have 1: "mode ?cfg \<noteq> JStr ''kafka''" and 2: "mode ?cfg \<noteq> JStr ''kubernetes''"
    by simp_all
  show ?thesis
    by (rule unrecognized_mode_throws [OF 1 2])
qed

subsection \<open>A payload that cannot be decoded\<close>

text \<open>
  Claim C2, as the code has it. A payload of structured mode that is neither an array
  nor a string cannot be iterated, and a payload of text mode that is not a string cannot
  be split: the parser throws a TypeError. Whenever the parser throws, the query catches
  the error, reports it on the console with the mode and the endpoint, and resolves to
  undefined, which is what \<open>console.error\<close> returns: no batch is returned, not even an
  empty one.
\<close>

theorem decode_failure_returns_undefined:
  assumes "getMetricsURI ns cfg = Inr URI"
    and "ToString ns URI = Inr u"
    and "axios_get (JStr (u @ encoded_query)) = Inr response"
    and "Get response ''data'' = Inr body" and "Get body ''data'' = Inr inner"
    and "Get inner ''result'' = Inr data"
    and "axios_get' URI = Inr response'" and "Get response' ''data'' = Inr text"
  shows "((\<forall>xs. data \<noteq> JArr xs) \<and> (\<forall>s. data \<noteq> JStr s)
            \<longrightarrow> parseProm ns data w = (Inl TypeError, w\<lparr>ticks := Suc (ticks w)\<rparr>))
       \<and> ((\<forall>s. text \<noteq> JStr s) \<longrightarrow> extractWord (mode cfg) text w = (Inl TypeError, w))
       \<and> (\<forall>e w'. parseProm ns data w = (Inl e, w')
            \<longrightarrow> promMetricsQuery ns axios_get cfg w =
                  (Inr Undefined, w'\<lparr>console := console w' @ [Fetch_failed (mode cfg) URI e]\<rparr>))
       \<and> (\<forall>e w'. extractWord (mode cfg) text w = (Inl e, w')
            \<longrightarrow> kafkaMetricsQuery ns axios_get' cfg w =
                  (Inr Undefined, w'\<lparr>console := console w' @ [Fetch_failed (mode cfg) URI e]\<rparr>))"
proof (intro conjI impI allI)
  assume "(\<forall>xs. data \<noteq> JArr xs) \<and> (\<forall>s. data \<noteq> JStr s)"
  then have "iterate data = Inl TypeError"
    by (cases data) simp_all
  then show "parseProm ns data w = (Inl TypeError, w\<lparr>ticks := Suc (ticks w)\<rparr>)"
    by (simp add: parseProm_def Date_now_def)
next
  assume "\<forall>s. text \<noteq> JStr s"
  then show "extractWord (mode cfg) text w = (Inl TypeError, w)"
    by (cases "text") (simp_all add: extractWord_def)
next
  fix e w'
  assume "parseProm ns data w = (Inl e, w')"
  then show "promMetricsQuery ns axios_get cfg w =
      (Inr Undefined, w'\<lparr>console := console w' @ [Fetch_failed (mode cfg) URI e]\<rparr>)"
    using assms(1-6) by (simp add: promMetricsQuery_def console_error_def)
next
  fix e w'
  assume "extractWord (mode cfg) text w = (Inl e, w')"
  then show "kafkaMetricsQuery ns axios_get' cfg w =
      (Inr Undefined, w'\<lparr>console := console w' @ [Fetch_failed (mode cfg) URI e]\<rparr>)"
    using assms(1,7,8) by (simp add: kafkaMetricsQuery_def console_error_def)
qed
text \<open>
  In mode \<open>kubernetes\<close> the server answers with a result that is an object, not an array;
  in mode \<open>kafka\<close> the exporter answers with an object, not a text. Both queries log the
  TypeError and resolve to undefined.
\<close>

theorem decode_failure_returns_undefined_witness:
  "promMetricsQuery (\<lambda>n. if n = Finite 9090 then ''9090'' else [])
     (\<lambda>u. Inr (JObj [(''data'', JObj [(''data'', JObj [(''result'', JObj [])])])]))
     \<lparr>mode = JStr ''kubernetes'', jmxuri = JUndefined, promService = JStr ''prom'',
      promPort = JNum (Finite 9090)\<rparr>
     \<lparr>clock = (\<lambda>k. 1000 + int k), ticks = 0, console = []\<rparr>
   = (Inr Undefined,
      \<lparr>clock = (\<lambda>k. 1000 + int k), ticks = 1,
       console = [Fetch_failed (JStr ''kubernetes'')
                    (JStr ''http://prom:9090/api/v1/query?query='') TypeError]\<rparr>)
   \<and> kafkaMetricsQuery (\<lambda>n. []) (\<lambda>u. Inr (JObj [(''data'', JObj [])]))
     \<lparr>mode = JStr ''kafka'', jmxuri = JStr ''http://jmx:5556/metrics'',
      promService = JUndefined, promPort = JUndefined\<rparr>
     \<lparr>clock = (\<lambda>k. 1000 + int k), ticks = 0, console = []\<rparr>
   = (Inr Undefined,
      \<lparr>clock = (\<lambda>k. 1000 + int k), ticks = 0,
       console = [Fetch_failed (JStr ''kafka'') (JStr ''http://jmx:5556/metrics'') TypeError]\<rparr>)"
proof -
  let ?ns = "\<lambda>n. if n = Finite 9090 then ''9090'' else []"
  let ?w = "\<lparr>clock = (\<lambda>k. 1000 + int k), ticks = 0, console = []\<rparr>"
  let ?k8s = "\<lparr>mode = JStr ''kubernetes'', jmxuri = JUndefined, promService = JStr ''prom'',
      promPort = JNum (Finite 9090)\<rparr>"
  let ?kafka = "\<lparr>mode = JStr ''kafka'', jmxuri = JStr ''http://jmx:5556/metrics'',
      promService = JUndefined, promPort = JUndefined\<rparr>"
  let ?ax = "\<lambda>u::jsval. (Inr (JObj [(''data'', JObj [(''data'', JObj [(''result'', JObj [])])])])
               :: error + jsval)"
  let ?ax' = "\<lambda>u::jsval. (Inr (JObj [(''data'', JObj [])]) :: error + jsval)"
  have u1: "getMetricsURI ?ns ?k8s = Inr (JStr ''http://prom:9090/api/v1/query?query='')"
    by (simp add: getMetricsURI_def)
  have s1: "ToString ?ns (JStr ''http://prom:9090/api/v1/query?query='')
      = Inr ''http://prom:9090/api/v1/query?query=''"
    by simp
  have a1: "?ax (JStr (''http://prom:9090/api/v1/query?query='' @ encoded_query))
      = Inr (JObj [(''data'', JObj [(''data'', JObj [(''result'', JObj [])])])])"
    by simp
  have g1: "Get (JObj [(''data'', JObj [(''data'', JObj [(''result'', JObj [])])])]) ''data''
      = Inr (JObj [(''data'', JObj [(''result'', JObj [])])])"
    and g2: "Get (JObj [(''data'', JObj [(''result'', JObj [])])]) ''data''
      = Inr (JObj [(''result'', JObj [])])"
    and g3: "Get (JObj [(''result'', JObj [])]) ''result'' = Inr (JObj [])"
    and g': "Get (JObj [(''data'', JObj [])]) ''data'' = Inr (JObj [])"
    by simp_all
  have a1': "?ax' (JStr ''http://prom:9090/api/v1/query?query='') = Inr (JObj [(''data'', JObj [])])"
    by simp
  have u2: "getMetricsURI (\<lambda>n. []) ?kafka = Inr (JStr ''http://jmx:5556/metrics'')"
    by (simp add: getMetricsURI_def)
  have s2: "ToString (\<lambda>n. []) (JStr ''http://jmx:5556/metrics'') = Inr ''http://jmx:5556/metrics''"
    by simp
  have a2: "?ax (JStr (''http://jmx:5556/metrics'' @ encoded_query))
      = Inr (JObj [(''data'', JObj [(''data'', JObj [(''result'', JObj [])])])])"
    by simp
  have a2': "?ax' (JStr ''http://jmx:5556/metrics'') = Inr (JObj [(''data'', JObj [])])"
    by simp
  have d: "(\<forall>xs. JObj [] \<noteq> JArr xs) \<and> (\<forall>s. JObj [] \<noteq> JStr s)"
    and t: "\<forall>s. JObj [] \<noteq> JStr s"
    by simp_all
  note k8s = decode_failure_returns_undefined [OF u1 s1 a1 g1 g2 g3 a1' g', where w = "?w"]
  note kafka = decode_failure_returns_undefined [OF u2 s2 a2 g1 g2 g3 a2' g', where w = "?w"]
  from k8s d have p: "parseProm ?ns (JObj []) ?w = (Inl TypeError, ?w\<lparr>ticks := Suc (ticks ?w)\<rparr>)"
    by blast
  from kafka t have e: "extractWord (mode ?kafka) (JObj []) ?w = (Inl TypeError, ?w)"
    by blast
  from k8s p have 1: "promMetricsQuery ?ns ?ax ?k8s ?w =
      (Inr Undefined,
       (?w\<lparr>ticks := Suc (ticks ?w)\<rparr>)\<lparr>console := console (?w\<lparr>ticks := Suc (ticks ?w)\<rparr>)
          @ [Fetch_failed (mode ?k8s) (JStr ''http://prom:9090/api/v1/query?query='') TypeError]\<rparr>)"
    by blast
  from kafka e have 2: "kafkaMetricsQuery (\<lambda>n. []) ?ax' ?kafka ?w =
      (Inr Undefined,
       ?w\<lparr>console := console ?w
          @ [Fetch_failed (mode ?kafka) (JStr ''http://jmx:5556/metrics'') TypeError]\<rparr>)"
    by blast
  from 1 2 show ?thesis by simp
qed

text \<open>
  The claim as it was stated says that an empty batch is returned. On the payload above
  the query of structured mode resolves to undefined, which is not the empty batch.
\<close>

theorem decode_failure_not_empty_batch:
  "fst (promMetricsQuery (\<lambda>n. if n = Finite 9090 then ''9090'' else [])
     (\<lambda>u. Inr (JObj [(''data'', JObj [(''data'', JObj [(''result'', JObj [])])])]))
     \<lparr>mode = JStr ''kubernetes'', jmxuri = JUndefined, promService = JStr ''prom'',
      promPort = JNum (Finite 9090)\<rparr>
     \<lparr>clock = (\<lambda>k. 1000 + int k), ticks = 0, console = []\<rparr>) = Inr Undefined
   \<and> Inr Undefined \<noteq> (Inr (Batch []) :: error + returned)"
  by (simp add: promMetricsQuery_def getMetricsURI_def parseProm_def Date_now_def
      console_error_def)

section \<open>Properties of a whole batch\<close>

text \<open>Every record of a batch was built by a round of the loop, from a value that passed the test.\<close>

lemma extractWord_body_records:
  assumes "\<forall>x\<in>set res. Q x"
    and "\<And>name n. \<not> is_NaN n \<Longrightarrow>
           Q \<lparr>metric = name, val = JNum n, time = t, category = ''Event''\<rparr>"
  shows "\<forall>x\<in>set (fst (extractWord_body m t l (res, con))). Q x"
  using assms by (simp add: extractWord_body_def Let_def)

lemma extractWord_loop_records:
  assumes "\<forall>x\<in>set (fst st). Q x"
    and "\<And>name n. \<not> is_NaN n \<Longrightarrow>
           Q \<lparr>metric = name, val = JNum n, time = t, category = ''Event''\<rparr>"
  shows "\<forall>x\<in>set (fst (extractWord_loop m t ls st)). Q x"
  using assms(1)
proof (induction ls arbitrary: st)
  case Nil
  then show ?case by simp
next
  case (Cons l ls)
  obtain res con where st: "st = (res, con)" by (cases st)
  have "\<forall>x\<in>set (fst (extractWord_body m t l st)). Q x"
    unfolding st using Cons.prems assms(2) by (intro extractWord_body_records) (simp_all add: st)
  then show ?case
    by (simp add: Cons.IH)
qed

lemma extractWord_records:
  assumes "extractWord m text w = (Inr res, w')"
    and "\<And>name n. \<not> is_NaN n \<Longrightarrow>
           Q \<lparr>metric = name, val = JNum n, time = clock w (ticks w), category = ''Event''\<rparr>"
  shows "\<forall>x\<in>set res. Q x"
proof (cases "text")
  case (JStr s)
  have "\<forall>x\<in>set (fst (extractWord_loop m (clock w (ticks w)) (split (CHR 0x0A) s)
                        ([], console w))). Q x"
    by (rule extractWord_loop_records) (simp_all add: assms(2))
  with assms(1) JStr show ?thesis
    by (auto simp add: extractWord_def Date_now_def split: prod.splits)
qed (use assms(1) in \<open>simp_all add: extractWord_def\<close>)

lemma parseProm_loop_records:
  assumes "parseProm_loop ns t xs (names, res) = Inr (names', res')"
    and "\<forall>x\<in>set res. Q x"
    and "\<And>name v. isNaN ns v = Inr False \<Longrightarrow>
           Q \<lparr>metric = name, val = v, time = t, category = ''Event''\<rparr>"
  shows "\<forall>x\<in>set res'. Q x"
  using assms(1,2)
proof (induction xs arbitrary: names res)
  case Nil
  then show ?case by simp
next
  case (Cons info xs)
  from Cons.prems(1) obtain names1 res1
    where b: "parseProm_body ns t info (names, res) = Inr (names1, res1)"
      and l: "parseProm_loop ns t xs (names1, res1) = Inr (names', res')"
    by (cases "parseProm_body ns t info (names, res)") auto
  from b have "\<forall>x\<in>set res1. Q x"
  proof (cases rule: parseProm_body_cases)
    case (fresh job name v nan)
    with Cons.prems(2) assms(3) [of v name] show ?thesis by (cases nan) simp_all
  qed (use Cons.prems(2) in simp_all)
  with l show ?case by (rule Cons.IH)
qed

lemma parseProm_records:
  assumes "parseProm ns data w = (Inr res, w')"
    and "\<And>name v. isNaN ns v = Inr False \<Longrightarrow>
           Q \<lparr>metric = name, val = v, time = clock w (ticks w), category = ''Event''\<rparr>"
  shows "\<forall>x\<in>set res. Q x"
proof -
  from assms(1) obtain infos names
    where "parseProm_loop ns (clock w (ticks w)) infos ({}, []) = Inr (names, res)"
    by (auto simp add: parseProm_def Date_now_def split: sum.splits prod.splits)
  then show ?thesis
    by (rule parseProm_loop_records) (simp_all add: assms(2))
qed

lemma parseProm_ticks: "ticks (snd (parseProm ns data w)) = Suc (ticks w)"
  by (simp add: parseProm_def Date_now_def split: sum.splits prod.splits)

lemma extractWord_ticks: "extractWord m text w = (Inr res, w') \<Longrightarrow> ticks w' = Suc (ticks w)"
  by (cases "text") (auto simp add: extractWord_def Date_now_def split: prod.splits)

lemma extractWord_total: "\<exists>res w'. extractWord m (JStr s) w = (Inr res, w')"
  by (simp add: extractWord_def Date_now_def split: prod.splits)

subsection \<open>One time for the batch\<close>

text \<open>
  Claim C5. An invocation of either parser that returns a batch has read the clock
  exactly once, before its loop, and every record of the batch carries that reading as
  its \<open>time\<close>. The parser of text mode returns a batch on every text; the parser of
  structured mode reads the clock once also when it fails.
\<close>

theorem batch_time_read_once:
  "(extractWord m text w = (Inr res, w')
      \<longrightarrow> ticks w' = Suc (ticks w) \<and> (\<forall>x\<in>set res. time x = clock w (ticks w)))
   \<and> (\<exists>res w'. extractWord m (JStr s) w = (Inr res, w'))
   \<and> (parseProm ns data w = (Inr res2, w2)
      \<longrightarrow> ticks w2 = Suc (ticks w) \<and> (\<forall>x\<in>set res2. time x = clock w (ticks w)))
   \<and> ticks (snd (parseProm ns data w)) = Suc (ticks w)"
proof (intro conjI impI)
  assume a: "extractWord m text w = (Inr res, w')"
  then show "ticks w' = Suc (ticks w)" by (rule extractWord_ticks)
  from a show "\<forall>x\<in>set res. time x = clock w (ticks w)"
    by (rule extractWord_records) simp
next
  show "\<exists>res w'. extractWord m (JStr s) w = (Inr res, w')" by (rule extractWord_total)
next
  assume a: "parseProm ns data w = (Inr res2, w2)"
  with parseProm_ticks [of ns data w] show "ticks w2 = Suc (ticks w)" by simp
  from a show "\<forall>x\<in>set res2. time x = clock w (ticks w)"
    by (rule parseProm_records) simp
next
  show "ticks (snd (parseProm ns data w)) = Suc (ticks w)" by (rule parseProm_ticks)
qed
text \<open>
  A text of two samples and a payload of two entries, on a clock that advances at each
  reading: the two records of each batch carry the first reading.
\<close>

theorem batch_time_read_once_witness:
  "extractWord (JStr ''kafka'') (JStr (''a 1'' @ [CHR 0x0A] @ ''b 2''))
     \<lparr>clock = (\<lambda>k. 1000 + int k), ticks = 0, console = []\<rparr>
   = (Inr [\<lparr>metric = ''a'', val = JNum (Finite 1), time = 1000, category = ''Event''\<rparr>,
           \<lparr>metric = ''b'', val = JNum (Finite 2), time = 1000, category = ''Event''\<rparr>],
      \<lparr>clock = (\<lambda>k. 1000 + int k), ticks = 1, console = []\<rparr>)
   \<and> parseProm (\<lambda>n. [])
     (JArr [JObj [(''metric'', JObj [(''job'', JStr ''api''), (''instance'', JStr ''h''),
                                     (''__name__'', JStr ''up'')]),
                  (''value'', JArr [JNum (Finite 1700000000), JStr ''1''])],
            JObj [(''metric'', JObj [(''job'', JStr ''api''), (''instance'', JStr ''h''),
                                     (''__name__'', JStr ''down'')]),
                  (''value'', JArr [JNum (Finite 1700000000), JStr ''2''])]])
     \<lparr>clock = (\<lambda>k. 1000 + int k), ticks = 0, console = []\<rparr>
   = (Inr [\<lparr>metric = ''api/h/up'', val = JStr ''1'', time = 1000, category = ''Event''\<rparr>,
           \<lparr>metric = ''api/h/down'', val = JStr ''2'', time = 1000, category = ''Event''\<rparr>],
      \<lparr>clock = (\<lambda>k. 1000 + int k), ticks = 1, console = []\<rparr>)
   \<and> map time [\<lparr>metric = ''a'', val = JNum (Finite 1), time = 1000, category = ''Event''\<rparr>,
                \<lparr>metric = ''b'', val = JNum (Finite 2), time = 1000, category = ''Event''\<rparr>]
       = [clock \<lparr>clock = (\<lambda>k. 1000 + int k), ticks = 0, console = []\<rparr> 0,
          clock \<lparr>clock = (\<lambda>k. 1000 + int k), ticks = 0, console = []\<rparr> 0]
   \<and> map time
        [\<lparr>metric = ''api/h/up'', val = JStr ''1'', time = 1000, category = ''Event''\<rparr>,
         \<lparr>metric = ''api/h/down'', val = JStr ''2'', time = 1000, category = ''Event''\<rparr>]
       = [clock \<lparr>clock = (\<lambda>k. 1000 + int k), ticks = 0, console = []\<rparr> 0,
          clock \<lparr>clock = (\<lambda>k. 1000 + int k), ticks = 0, console = []\<rparr> 0]"
proof -
  let ?w = "\<lparr>clock = (\<lambda>k. 1000 + int k), ticks = 0, console = []\<rparr>"
  let ?w' = "\<lparr>clock = (\<lambda>k. 1000 + int k), ticks = 1, console = []\<rparr>"
  let ?text = "JStr (''a 1'' @ [CHR 0x0A] @ ''b 2'')"
  let ?data = "JArr [JObj [(''metric'', JObj [(''job'', JStr ''api''), (''instance'', JStr ''h''),
                                     (''__name__'', JStr ''up'')]),
                  (''value'', JArr [JNum (Finite 1700000000), JStr ''1''])],
            JObj [(''metric'', JObj [(''job'', JStr ''api''), (''instance'', JStr ''h''),
                                     (''__name__'', JStr ''down'')]),
                  (''value'', JArr [JNum (Finite 1700000000), JStr ''2''])]]"
  let ?res = "[\<lparr>metric = ''a'', val = JNum (Finite 1), time = 1000, category = ''Event''\<rparr>,
           \<lparr>metric = ''b'', val = JNum (Finite 2), time = 1000, category = ''Event''\<rparr>]"
  let ?res2 = "[\<lparr>metric = ''api/h/up'', val = JStr ''1'', time = 1000, category = ''Event''\<rparr>,
           \<lparr>metric = ''api/h/down'', val = JStr ''2'', time = 1000, category = ''Event''\<rparr>]"
  have n1: "StringToNumber ''1'' = Finite 1" and n2: "StringToNumber ''2'' = Finite 2"
    by (simp_all add: number_eval)
  have b1: "extractWord_body (JStr ''kafka'') 1000 ''a 1'' ([], []) = ([hd ?res], [])"
    by (simp add: line_eval n1 is_NaN_def)
  have b2: "extractWord_body (JStr ''kafka'') 1000 ''b 2'' ([hd ?res], []) = (?res, [])"
    by (simp add: line_eval n2 is_NaN_def)
  have e: "extractWord (JStr ''kafka'') ?text ?w = (Inr ?res, ?w')"
    using b1 b2 by (simp add: extractWord_def Date_now_def)
  have p: "parseProm (\<lambda>n. []) ?data ?w = (Inr ?res2, ?w')"
    by (simp add: entry_eval n1 n2 is_NaN_def)
  from batch_time_read_once [of "JStr ''kafka''" ?text ?w ?res ?w' "[]" "\<lambda>n. []" ?data ?res2 ?w']
    e p
  have "(\<forall>x\<in>set ?res. time x = clock ?w (ticks ?w))
      \<and> (\<forall>x\<in>set ?res2. time x = clock ?w (ticks ?w))"
    by blast
  with e p show ?thesis by simp
qed

subsection \<open>No NaN in a batch\<close>

text \<open>
  Claim C6. In text mode every record of a batch has a number other than NaN as its
  value, and a line whose candidate value coerces to NaN adds no record. In structured
  mode the value of every record is neither the number NaN nor the string \<open>NaN\<close>, and
  does not coerce to NaN; an entry whose candidate value coerces to NaN, or is the string
  \<open>NaN\<close>, adds no record.
\<close>

theorem batch_has_no_NaN:
  "(extractWord m payload w = (Inr res, w')
      \<longrightarrow> (\<forall>x\<in>set res. \<exists>n. val x = JNum n \<and> n \<noteq> NaN))
   \<and> (is_NaN (StringToNumber (slice_from l (lastIndexOf l CHR '' '' + 1)))
      \<longrightarrow> fst (extractWord_body m t l (rs, con)) = rs)
   \<and> (parseProm ns data w = (Inr batch, wp)
      \<longrightarrow> (\<forall>x\<in>set batch. val x \<noteq> JNum NaN \<and> val x \<noteq> JStr ''NaN''
                            \<and> isNaN ns (val x) = Inr False))
   \<and> (entry_value info = Inr v \<and> (isNaN ns v = Inr True \<or> v = JStr ''NaN'')
        \<and> parseProm_body ns t info (names, rs) = Inr (names', rs')
      \<longrightarrow> rs' = rs)"
proof (intro conjI impI)
  assume "extractWord m payload w = (Inr res, w')"
  then show "\<forall>x\<in>set res. \<exists>n. val x = JNum n \<and> n \<noteq> NaN"
    by (rule extractWord_records) (simp add: is_NaN_def)
next
  assume "is_NaN (StringToNumber (slice_from l (lastIndexOf l CHR '' '' + 1)))"
  then show "fst (extractWord_body m t l (rs, con)) = rs"
    by (simp add: extractWord_body_def Let_def)
next
  assume "parseProm ns data w = (Inr batch, wp)"
  then show "\<forall>x\<in>set batch. val x \<noteq> JNum NaN \<and> val x \<noteq> JStr ''NaN''
                            \<and> isNaN ns (val x) = Inr False"
  proof (rule parseProm_records)
    fix name v
    assume "isNaN ns v = Inr False"
    with isNaN_NaN_string [of ns]
    show "val \<lparr>metric = name, val = v, time = clock w (ticks w), category = ''Event''\<rparr>
              \<noteq> JNum NaN
        \<and> val \<lparr>metric = name, val = v, time = clock w (ticks w), category = ''Event''\<rparr>
              \<noteq> JStr ''NaN''
        \<and> isNaN ns (val \<lparr>metric = name, val = v, time = clock w (ticks w),
                         category = ''Event''\<rparr>) = Inr False"
      by (auto simp add: isNaN_def is_NaN_def)
  qed
next
  assume a: "entry_value info = Inr v \<and> (isNaN ns v = Inr True \<or> v = JStr ''NaN'')
        \<and> parseProm_body ns t info (names, rs) = Inr (names', rs')"
  then have nan: "isNaN ns v = Inr True"
    using isNaN_NaN_string [of ns] by auto
  from a have "parseProm_body ns t info (names, rs) = Inr (names', rs')" by simp
  then show "rs' = rs"
  proof (cases rule: parseProm_body_cases)
    case (fresh job name v' nan')
    with a nan show ?thesis by simp
  qed simp_all
qed

text \<open>
  A text whose second line ends in \<open>NaN\<close>, and a payload whose second entry has the
  sample \<open>NaN\<close>: each batch holds the first record alone.
\<close>

theorem batch_has_no_NaN_witness:
  "extractWord (JStr ''kafka'') (JStr (''a 1'' @ [CHR 0x0A] @ ''b NaN''))
     \<lparr>clock = (\<lambda>k. 1000 + int k), ticks = 0, console = []\<rparr>
   = (Inr [\<lparr>metric = ''a'', val = JNum (Finite 1), time = 1000, category = ''Event''\<rparr>],
      \<lparr>clock = (\<lambda>k. 1000 + int k), ticks = 1, console = [Invalid_metric ''b NaN'']\<rparr>)
   \<and> parseProm (\<lambda>n. [])
     (JArr [JObj [(''metric'', JObj [(''job'', JStr ''api''), (''instance'', JStr ''h''),
                                     (''__name__'', JStr ''up'')]),
                  (''value'', JArr [JNum (Finite 1700000000), JStr ''1''])],
            JObj [(''metric'', JObj [(''job'', JStr ''api''), (''instance'', JStr ''h''),
                                     (''__name__'', JStr ''down'')]),
                  (''value'', JArr [JNum (Finite 1700000000), JStr ''NaN''])]])
     \<lparr>clock = (\<lambda>k. 1000 + int k), ticks = 0, console = []\<rparr>
   = (Inr [\<lparr>metric = ''api/h/up'', val = JStr ''1'', time = 1000, category = ''Event''\<rparr>],
      \<lparr>clock = (\<lambda>k. 1000 + int k), ticks = 1, console = []\<rparr>)
   \<and> val \<lparr>metric = ''a'', val = JNum (Finite 1), time = 1000, category = ''Event''\<rparr>
       \<noteq> JNum NaN
   \<and> isNaN (\<lambda>n. [])
        (val \<lparr>metric = ''api/h/up'', val = JStr ''1'', time = 1000, category = ''Event''\<rparr>)
       = Inr False"
proof -
  let ?w = "\<lparr>clock = (\<lambda>k. 1000 + int k), ticks = 0, console = []\<rparr>"
  let ?w' = "\<lparr>clock = (\<lambda>k. 1000 + int k), ticks = 1, console = []\<rparr>"
  let ?w'' = "\<lparr>clock = (\<lambda>k. 1000 + int k), ticks = 1, console = [Invalid_metric ''b NaN'']\<rparr>"
  let ?text = "JStr (''a 1'' @ [CHR 0x0A] @ ''b NaN'')"
  let ?e2 = "JObj [(''metric'', JObj [(''job'', JStr ''api''), (''instance'', JStr ''h''),
                                     (''__name__'', JStr ''down'')]),
                  (''value'', JArr [JNum (Finite 1700000000), JStr ''NaN''])]"
  let ?data = "JArr [JObj [(''metric'', JObj [(''job'', JStr ''api''), (''instance'', JStr ''h''),
                                     (''__name__'', JStr ''up'')]),
                  (''value'', JArr [JNum (Finite 1700000000), JStr ''1''])], ?e2]"
  let ?r = "\<lparr>metric = ''a'', val = JNum (Finite 1), time = 1000, category = ''Event''\<rparr>"
  let ?r2 = "\<lparr>metric = ''api/h/up'', val = JStr ''1'', time = 1000, category = ''Event''\<rparr>"
  have n1: "StringToNumber ''1'' = Finite 1" and n2: "StringToNumber ''NaN'' = NaN"
    by (simp_all add: number_eval)
  have b1: "extractWord_body (JStr ''kafka'') 1000 ''a 1'' ([], []) = ([?r], [])"
    by (simp add: line_eval n1 is_NaN_def)
  have b2: "extractWord_body (JStr ''kafka'') 1000 ''b NaN'' ([?r], [])
      = ([?r], [Invalid_metric ''b NaN''])"
    by (simp add: line_eval n2 is_NaN_def)
  have e: "extractWord (JStr ''kafka'') ?text ?w = (Inr [?r], ?w'')"
    using b1 b2 by (simp add: extractWord_def Date_now_def)
  have p: "parseProm (\<lambda>n. []) ?data ?w = (Inr [?r2], ?w')"
    by (simp add: entry_eval n1 n2 is_NaN_def)
  have tok: "is_NaN (StringToNumber (slice_from ''b NaN'' (lastIndexOf ''b NaN'' CHR '' '' + 1)))"
    by (simp add: slice_from_def rel_index_def Let_def n2 is_NaN_def)
  have ev: "entry_value ?e2 = Inr (JStr ''NaN'') \<and>
      (isNaN (\<lambda>n. []) (JStr ''NaN'') = Inr True \<or> JStr ''NaN'' = JStr ''NaN'')
      \<and> parseProm_body (\<lambda>n. []) 1000 ?e2 ({''api/h/up''}, [?r2])
          = Inr (insert ''api/h/down'' {''api/h/up''}, [?r2])"
    by (simp add: parseProm_body_def entry_job_def entry_name_def entry_value_def isNaN_def
        n2 is_NaN_def)
  note t = batch_has_no_NaN [where m = "JStr ''kafka''" and payload = "?text" and w = "?w"
      and res = "[?r]" and w' = "?w''" and l = "''b NaN''" and t = 1000 and rs = "[?r2]"
      and con = "[]" and ns = "\<lambda>n. []" and data = "?data" and batch = "[?r2]" and wp = "?w'"
      and info = "?e2" and v = "JStr ''NaN''" and names = "{''api/h/up''}"
      and names' = "insert ''api/h/down'' {''api/h/up''}" and rs' = "[?r2]"]
  from t e have "\<forall>x\<in>set [?r]. \<exists>n. val x = JNum n \<and> n \<noteq> NaN" by blast
  then have 1: "val ?r \<noteq> JNum NaN" by auto
  from t p have "\<forall>x\<in>set [?r2]. val x \<noteq> JNum NaN \<and> val x \<noteq> JStr ''NaN''
      \<and> isNaN (\<lambda>n. []) (val x) = Inr False"
    by blast
  then have 2: "isNaN (\<lambda>n. []) (val ?r2) = Inr False" by simp
  from t tok have 3: "fst (extractWord_body (JStr ''kafka'') 1000 ''b NaN'' ([?r2], [])) = [?r2]"
    by blast
  from t ev have 4: "[?r2] = [?r2]" by blast
  from e p 1 2 show ?thesis by blast
qed

subsection \<open>A value given as a pair\<close>

text \<open>
  Claim C1, as the code has it. In structured mode, for an entry whose value field is a
  sequence of two elements, the second element is the candidate value. It is coerced to a
  number for the NaN test only: when the entry has a truthy job and a name not seen
  before, the record it adds carries the second element itself, unchanged (a string stays
  a string), and it adds no record when that element coerces to NaN.
\<close>

theorem parseProm_pair_value:
  assumes "Get info ''value'' = Inr (JArr [a, b])"
    and "entry_job info = Inr job" and "ToBoolean job"
    and "entry_name ns info = Inr name" and "name \<notin> names"
    and "isNaN ns b = Inr nan"
  shows "entry_value info = Inr b
       \<and> parseProm_body ns t info (names, res) =
           Inr (insert name names,
                if nan then res
                else res @ [\<lparr>metric = name, val = b, time = t, category = ''Event''\<rparr>])"
proof -
  have v: "entry_value info = Inr b"
    using assms(1) by (simp add: entry_value_def)
  from v parseProm_body_fresh [OF assms(2,3,4,5) v assms(6)] show ?thesis by simp
qed

text \<open>
  The entry with the value \<open>[1700000000, "3.14"]\<close>: its record carries the string
  \<open>3.14\<close>, which coerces to the number 3.14.
\<close>

theorem parseProm_pair_value_witness:
  "parseProm (\<lambda>n. [])
     (JArr [JObj [(''metric'', JObj [(''job'', JStr ''api''), (''instance'', JStr ''h''),
                                     (''__name__'', JStr ''up'')]),
                  (''value'', JArr [JNum (Finite 1700000000), JStr ''3.14''])]])
     \<lparr>clock = (\<lambda>k. 1000 + int k), ticks = 0, console = []\<rparr>
   = (Inr [\<lparr>metric = ''api/h/up'', val = JStr ''3.14'', time = 1000, category = ''Event''\<rparr>],
      \<lparr>clock = (\<lambda>k. 1000 + int k), ticks = 1, console = []\<rparr>)
   \<and> ToNumber (\<lambda>n. []) (JStr ''3.14'') = Inr (Finite (157 / 50))"
proof -
  let ?w = "\<lparr>clock = (\<lambda>k. 1000 + int k), ticks = 0, console = []\<rparr>"
  let ?info = "JObj [(''metric'', JObj [(''job'', JStr ''api''), (''instance'', JStr ''h''),
                                       (''__name__'', JStr ''up'')]),
                    (''value'', JArr [JNum (Finite 1700000000), JStr ''3.14''])]"
  have n: "StringToNumber ''3.14'' = Finite (157 / 50)"
    by (simp add: number_eval)
  have g: "Get ?info ''value'' = Inr (JArr [JNum (Finite 1700000000), JStr ''3.14''])"
    by simp
  have j: "entry_job ?info = Inr (JStr ''api'')" and tb: "ToBoolean (JStr ''api'')"
    by (simp_all add: entry_job_def)
  have nm: "entry_name (\<lambda>n. []) ?info = Inr ''api/h/up''"
    by (simp add: entry_name_def entry_job_def)
  have fr: "''api/h/up'' \<notin> {}"
    by simp
  have nan: "isNaN (\<lambda>n. []) (JStr ''3.14'') = Inr False"
    by (simp add: isNaN_def n is_NaN_def)
  from parseProm_pair_value [OF g j tb nm fr nan, of 1000 "[]"]
  have "parseProm_body (\<lambda>n. []) 1000 ?info ({}, []) =
      Inr (insert ''api/h/up'' {},
           [\<lparr>metric = ''api/h/up'', val = JStr ''3.14'', time = 1000, category = ''Event''\<rparr>])"
    by simp
  then show ?thesis
    by (simp add: parseProm_JArr n)
qed

text \<open>
  The claim as it was stated says that the record has the number 3.14 as its value. The
  value of the record is the string, which is not a number.
\<close>

theorem parseProm_pair_value_not_number:
  "fst (parseProm (\<lambda>n. [])
     (JArr [JObj [(''metric'', JObj [(''job'', JStr ''api''), (''instance'', JStr ''h''),
                                     (''__name__'', JStr ''up'')]),
                  (''value'', JArr [JNum (Finite 1700000000), JStr ''3.14''])]])
     \<lparr>clock = (\<lambda>k. 1000 + int k), ticks = 0, console = []\<rparr>)
   = Inr [\<lparr>metric = ''api/h/up'', val = JStr ''3.14'', time = 1000, category = ''Event''\<rparr>]
   \<and> JStr ''3.14'' \<noteq> JNum (Finite (157 / 50))"
proof -
  have n: "StringToNumber ''3.14'' = Finite (157 / 50)"
    by (simp add: number_eval)
  show ?thesis
    by (simp add: entry_eval n is_NaN_def)
qed

subsection \<open>First seen wins\<close>

lemma parseProm_loop_distinct:
  assumes "parseProm_loop ns t xs (names, res) = Inr (names', res')"
    and "metric ` set res \<subseteq> names" and "distinct (map metric res)"
  shows "metric ` set res' \<subseteq> names' \<and> distinct (map metric res')"
  using assms
proof (induction xs arbitrary: names res)
  case Nil
  then show ?case by simp
next
  case (Cons info xs)
  from Cons.prems(1) obtain names1 res1
    where b: "parseProm_body ns t info (names, res) = Inr (names1, res1)"
      and l: "parseProm_loop ns t xs (names1, res1) = Inr (names', res')"
    by (cases "parseProm_body ns t info (names, res)") auto
  from b have "metric ` set res1 \<subseteq> names1 \<and> distinct (map metric res1)"
  proof (cases rule: parseProm_body_cases)
    case (fresh job name v nan)
    with Cons.prems(2,3) show ?thesis by (cases nan) auto
  qed (use Cons.prems(2,3) in simp_all)
  then show ?case
    using Cons.IH [OF l] by simp
qed

lemma ex_less_append:
  assumes "i \<le> length xs"
  shows "(\<exists>j<i. Q ((xs @ ys) ! j)) \<longleftrightarrow> (\<exists>j<i. Q (xs ! j))"
proof -
  have eq: "(xs @ ys) ! j = xs ! j" if "j < i" for j
    using that assms by (simp add: nth_append)
  show ?thesis
  proof
    assume "\<exists>j<i. Q ((xs @ ys) ! j)"
    then obtain j where "j < i" and "Q ((xs @ ys) ! j)" by blast
    with eq [of j] have "j < i \<and> Q (xs ! j)" by simp
    then show "\<exists>j<i. Q (xs ! j)" by blast
  next
    assume "\<exists>j<i. Q (xs ! j)"
    then obtain j where "j < i" and "Q (xs ! j)" by blast
    with eq [of j] have "j < i \<and> Q ((xs @ ys) ! j)" by simp
    then show "\<exists>j<i. Q ((xs @ ys) ! j)" by blast
  qed
qed

lemma ex_less_snoc:
  "(\<exists>j<length (xs @ [x]). Q ((xs @ [x]) ! j)) \<longleftrightarrow> (\<exists>j<length xs. Q (xs ! j)) \<or> Q x"
proof -
  have "(\<exists>j<length (xs @ [x]). Q ((xs @ [x]) ! j))
      \<longleftrightarrow> (\<exists>j<length xs. Q ((xs @ [x]) ! j)) \<or> Q ((xs @ [x]) ! length xs)"
    by (simp add: less_Suc_eq ex_disj_distrib conj_disj_distribR del: nth_append_length)
  also have "(\<exists>j<length xs. Q ((xs @ [x]) ! j)) \<longleftrightarrow> (\<exists>j<length xs. Q (xs ! j))"
    by (rule ex_less_append) simp
  finally show ?thesis by simp
qed

lemma retained_append:
  assumes "i < length xs"
  shows "retained ns t (xs @ ys) i = retained ns t xs i"
proof -
  from assms have "i \<le> length xs" by simp
  then have "(\<exists>j<i. entry_identity ns ((xs @ ys) ! j) = Some k)
      \<longleftrightarrow> (\<exists>j<i. entry_identity ns (xs ! j) = Some k)" for k
    by (rule ex_less_append)
  moreover from assms have "(xs @ ys) ! i = xs ! i"
    by (simp add: nth_append)
  ultimately show ?thesis
    by (auto simp add: retained_def split: option.splits)
qed

lemma retained_last:
  assumes "names = {k. \<exists>j<length xs. entry_identity ns (xs ! j) = Some k}"
  shows "retained ns t (xs @ [x]) (length xs) =
     (case entry_identity ns x of
        None \<Rightarrow> []
      | Some name \<Rightarrow>
          if name \<in> names then []
          else (case entry_sample ns x of
                  None \<Rightarrow> []
                | Some v \<Rightarrow> [\<lparr>metric = name, val = v, time = t, category = ''Event''\<rparr>]))"
proof -
  have "(\<exists>j<length xs. entry_identity ns ((xs @ [x]) ! j) = Some k) \<longleftrightarrow> k \<in> names" for k
    unfolding assms using ex_less_append [of "length xs" xs "\<lambda>e. entry_identity ns e = Some k" "[x]"]
    by simp
  then show ?thesis
    by (simp add: retained_def split: option.splits)
qed

lemma identities_snoc:
  "{k. \<exists>j<length (xs @ [x]). entry_identity ns ((xs @ [x]) ! j) = Some k} =
     {k. \<exists>j<length xs. entry_identity ns (xs ! j) = Some k}
       \<union> (case entry_identity ns x of None \<Rightarrow> {} | Some k \<Rightarrow> {k})"
proof -
  have "(\<exists>j<length (xs @ [x]). entry_identity ns ((xs @ [x]) ! j) = Some k)
      \<longleftrightarrow> (\<exists>j<length xs. entry_identity ns (xs ! j) = Some k) \<or> entry_identity ns x = Some k"
    for k
    by (rule ex_less_snoc)
  then show ?thesis
    by (cases "entry_identity ns x") (simp_all add: set_eq_iff, blast)
qed

lemma retained_snoc:
  "concat (map (retained ns t (xs @ [x])) [0..<length (xs @ [x])]) =
     concat (map (retained ns t xs) [0..<length xs]) @ retained ns t (xs @ [x]) (length xs)"
proof -
  have "map (retained ns t (xs @ [x])) [0..<length xs] = map (retained ns t xs) [0..<length xs]"
    by (rule map_cong) (simp_all add: retained_append)
  then show ?thesis by (simp del: map_eq_conv)
qed

lemma parseProm_loop_retained:
  assumes "parseProm_loop ns t xs ({}, []) = Inr (names, res)"
  shows "names = {k. \<exists>j<length xs. entry_identity ns (xs ! j) = Some k}
       \<and> res = concat (map (retained ns t xs) [0..<length xs])"
  using assms
proof (induction xs arbitrary: names res rule: rev_induct)
  case Nil
  then show ?case by simp
next
  case (snoc x xs)
  let ?ids = "{k. \<exists>j<length (xs @ [x]). entry_identity ns ((xs @ [x]) ! j) = Some k}"
  let ?all = "concat (map (retained ns t (xs @ [x])) [0..<length (xs @ [x])])"
  from snoc.prems obtain names0 res0
    where l: "parseProm_loop ns t xs ({}, []) = Inr (names0, res0)"
      and b: "parseProm_body ns t x (names0, res0) = Inr (names, res)"
    by (auto simp add: parseProm_loop_append split: sum.splits)
  from snoc.IH [OF l]
  have n0: "names0 = {k. \<exists>j<length xs. entry_identity ns (xs ! j) = Some k}"
    and r0: "res0 = concat (map (retained ns t xs) [0..<length xs])"
    by simp_all
  have ids: "?ids = names0 \<union> (case entry_identity ns x of None \<Rightarrow> {} | Some k \<Rightarrow> {k})"
    unfolding n0 by (rule identities_snoc)
  have all: "?all = res0 @ retained ns t (xs @ [x]) (length xs)"
    unfolding r0 by (rule retained_snoc)
  note last = retained_last [OF n0, of t x]
  from b have "names = ?ids \<and> res = ?all"
  proof (cases rule: parseProm_body_cases)
    case (falsy job)
    then have i: "entry_identity ns x = None"
      by (simp add: entry_identity_def)
    from i last have "retained ns t (xs @ [x]) (length xs) = []" by simp
    with i falsy show ?thesis unfolding ids all by simp
  next
    case (seen job name)
    then have i: "entry_identity ns x = Some name"
      by (simp add: entry_identity_def)
    from i last seen(4) have "retained ns t (xs @ [x]) (length xs) = []" by simp
    with i seen show ?thesis unfolding ids all by auto
  next
    case (fresh job name v nan)
    then have i: "entry_identity ns x = Some name"
      by (simp add: entry_identity_def)
    have s: "entry_sample ns x = (if nan then None else Some v)"
      using fresh(5,6) isNaN_NaN_string [of ns] by (auto simp add: entry_sample_def)
    from i last fresh(4) s have "retained ns t (xs @ [x]) (length xs) =
        (if nan then [] else [\<lparr>metric = name, val = v, time = t, category = ''Event''\<rparr>])"
      by simp
    with i fresh(7,8) show ?thesis unfolding ids all by simp
  qed
  then show ?case .
qed

text \<open>
  Claim C3, as the code has it. For every payload of structured mode on which the parser
  returns a batch, the metrics of the batch are pairwise distinct, so that entries
  sharing identical job, instance and \<open>__name__\<close> yield at most one record; the batch is,
  in the order of the input, what each entry retains: a record for the first entry with
  its identity, when its value passes the NaN test, and nothing for every later entry
  with that identity, and nothing either for the first one when its value coerces to NaN.
\<close>

theorem parseProm_first_seen_wins:
  assumes "parseProm ns (JArr infos) w = (Inr res, w')"
  shows "distinct (map metric res)
       \<and> res = concat (map (retained ns (clock w (ticks w)) infos) [0..<length infos])"
proof -
  from assms obtain names
    where l: "parseProm_loop ns (clock w (ticks w)) infos ({}, []) = Inr (names, res)"
    by (auto simp add: parseProm_JArr split: sum.splits)
  from parseProm_loop_distinct [OF l] have "distinct (map metric res)"
    by simp
  with parseProm_loop_retained [OF l] show ?thesis
    by simp
qed
text \<open>
  Three entries: the first two share job, instance and \<open>__name__\<close> and differ in another
  label and in their sample, the third has another name. The batch holds the first and
  the third, in that order.
\<close>

theorem parseProm_first_seen_wins_witness:
  "parseProm (\<lambda>n. [])
     (JArr [JObj [(''metric'', JObj [(''job'', JStr ''api''), (''instance'', JStr ''h''),
                                     (''__name__'', JStr ''up''), (''code'', JStr ''200'')]),
                  (''value'', JArr [JNum (Finite 1700000000), JStr ''1''])],
            JObj [(''metric'', JObj [(''job'', JStr ''api''), (''instance'', JStr ''h''),
                                     (''__name__'', JStr ''up''), (''code'', JStr ''500'')]),
                  (''value'', JArr [JNum (Finite 1700000000), JStr ''2''])],
            JObj [(''metric'', JObj [(''job'', JStr ''api''), (''instance'', JStr ''h''),
                                     (''__name__'', JStr ''down'')]),
                  (''value'', JArr [JNum (Finite 1700000000), JStr ''3''])]])
     \<lparr>clock = (\<lambda>k. 1000 + int k), ticks = 0, console = []\<rparr>
   = (Inr [\<lparr>metric = ''api/h/up'', val = JStr ''1'', time = 1000, category = ''Event''\<rparr>,
           \<lparr>metric = ''api/h/down'', val = JStr ''3'', time = 1000, category = ''Event''\<rparr>],
      \<lparr>clock = (\<lambda>k. 1000 + int k), ticks = 1, console = []\<rparr>)
   \<and> distinct (map metric
        [\<lparr>metric = ''api/h/up'', val = JStr ''1'', time = 1000, category = ''Event''\<rparr>,
         \<lparr>metric = ''api/h/down'', val = JStr ''3'', time = 1000, category = ''Event''\<rparr>])
   \<and> [\<lparr>metric = ''api/h/up'', val = JStr ''1'', time = 1000, category = ''Event''\<rparr>,
       \<lparr>metric = ''api/h/down'', val = JStr ''3'', time = 1000, category = ''Event''\<rparr>]
     = concat (map (retained (\<lambda>n. []) 1000
         [JObj [(''metric'', JObj [(''job'', JStr ''api''), (''instance'', JStr ''h''),
                                     (''__name__'', JStr ''up''), (''code'', JStr ''200'')]),
                  (''value'', JArr [JNum (Finite 1700000000), JStr ''1''])],
            JObj [(''metric'', JObj [(''job'', JStr ''api''), (''instance'', JStr ''h''),
                                     (''__name__'', JStr ''up''), (''code'', JStr ''500'')]),
                  (''value'', JArr [JNum (Finite 1700000000), JStr ''2''])],
            JObj [(''metric'', JObj [(''job'', JStr ''api''), (''instance'', JStr ''h''),
                                     (''__name__'', JStr ''down'')]),
                  (''value'', JArr [JNum (Finite 1700000000), JStr ''3''])]])
         [0..<length
           [JObj [(''metric'', JObj [(''job'', JStr ''api''), (''instance'', JStr ''h''),
                                     (''__name__'', JStr ''up''), (''code'', JStr ''200'')]),
                  (''value'', JArr [JNum (Finite 1700000000), JStr ''1''])],
            JObj [(''metric'', JObj [(''job'', JStr ''api''), (''instance'', JStr ''h''),
                                     (''__name__'', JStr ''up''), (''code'', JStr ''500'')]),
                  (''value'', JArr [JNum (Finite 1700000000), JStr ''2''])],
            JObj [(''metric'', JObj [(''job'', JStr ''api''), (''instance'', JStr ''h''),
                                     (''__name__'', JStr ''down'')]),
                  (''value'', JArr [JNum (Finite 1700000000), JStr ''3''])]]])"
proof -
  let ?w = "\<lparr>clock = (\<lambda>k. 1000 + int k), ticks = 0, console = []\<rparr>"
  let ?w' = "\<lparr>clock = (\<lambda>k. 1000 + int k), ticks = 1, console = []\<rparr>"
  let ?infos = "[JObj [(''metric'', JObj [(''job'', JStr ''api''), (''instance'', JStr ''h''),
                                     (''__name__'', JStr ''up''), (''code'', JStr ''200'')]),
                  (''value'', JArr [JNum (Finite 1700000000), JStr ''1''])],
            JObj [(''metric'', JObj [(''job'', JStr ''api''), (''instance'', JStr ''h''),
                                     (''__name__'', JStr ''up''), (''code'', JStr ''500'')]),
                  (''value'', JArr [JNum (Finite 1700000000), JStr ''2''])],
            JObj [(''metric'', JObj [(''job'', JStr ''api''), (''instance'', JStr ''h''),
                                     (''__name__'', JStr ''down'')]),
                  (''value'', JArr [JNum (Finite 1700000000), JStr ''3''])]]"
  let ?res = "[\<lparr>metric = ''api/h/up'', val = JStr ''1'', time = 1000, category = ''Event''\<rparr>,
           \<lparr>metric = ''api/h/down'', val = JStr ''3'', time = 1000, category = ''Event''\<rparr>]"
  have n: "StringToNumber ''1'' = Finite 1" "StringToNumber ''3'' = Finite 3"
    by (simp_all add: number_eval)
  have p: "parseProm (\<lambda>n. []) (JArr ?infos) ?w = (Inr ?res, ?w')"
    by (simp add: entry_eval n is_NaN_def)
  have t: "clock ?w (ticks ?w) = 1000"
    by simp
  note r = parseProm_first_seen_wins [OF p, unfolded t]
  from p r show ?thesis by blast
qed

text \<open>
  The claim as it was stated says that two entries with identical job, instance and
  \<open>__name__\<close> yield exactly one record, the first being retained. When the sample of the
  first is \<open>NaN\<close>, the first is dropped by the NaN test and the second as a duplicate:
  the batch is empty.
\<close>

theorem parseProm_first_seen_none:
  "fst (parseProm (\<lambda>n. [])
     (JArr [JObj [(''metric'', JObj [(''job'', JStr ''api''), (''instance'', JStr ''h''),
                                     (''__name__'', JStr ''up'')]),
                  (''value'', JArr [JNum (Finite 1700000000), JStr ''NaN''])],
            JObj [(''metric'', JObj [(''job'', JStr ''api''), (''instance'', JStr ''h''),
                                     (''__name__'', JStr ''up'')]),
                  (''value'', JArr [JNum (Finite 1700000000), JStr ''1''])]])
     \<lparr>clock = (\<lambda>k. 1000 + int k), ticks = 0, console = []\<rparr>) = Inr []"
proof -
  have n: "StringToNumber ''NaN'' = NaN"
    by (simp add: number_eval)
  show ?thesis
    by (simp add: entry_eval n is_NaN_def)
qed

end
